theory Spec2Isabelle
  imports Complex_Main
begin

section \<open>Python values shared by the notebooks\<close>

text \<open>
  The notebooks are Python. Every exception a cell or a function of a cell can raise
  is a value of \<open>error\<close>; a cell that raises returns \<open>Inl e\<close>, a cell that runs to its
  end returns \<open>Inr\<close> of what it produced. \<open>FrameworkError\<close> stands for any exception
  raised inside a call into NumPy, PyTorch, TensorFlow or the \<open>cv\<close> package.
\<close>

datatype error =
    AssertionError string
  | ValueError string
  | IndexError
  | KeyError string
  | AttributeError string
  | ZeroDivisionError
  | FrameworkError string

text \<open>
  What a cell prints: a literal line, or a format template together with the values
  substituted into it (\<open>template.format(v)\<close>, \<open>template % v\<close>). The values stay
  symbolic, so no rounding of the printed number is modelled.
\<close>

datatype 'v printed = Text string | Fmt string "'v list"

section \<open>GAN notebook: parameter counts of the fully connected networks\<close>

text \<open>
  The layers the notebook prescribes for \<open>discriminator()\<close> and \<open>generator()\<close>:
  a fully connected layer is given by its output size (Keras infers the input size from
  the preceding layer), the activations carry no parameters.
\<close>

datatype layer = Dense nat | LeakyReLU real | ReLU | TanH

text \<open>A sequential model: the size of its input and its layers, first to last.\<close>

type_synonym sequential = "nat \<times> layer list"

text \<open>
  Modelled from the spec: \<open>count_params\<close> is imported from \<open>cv/gan_tf.py\<close>, which is not
  among the sources. It is the number of trainable parameters of the model: a fully
  connected layer from \<open>d\<close> inputs to \<open>u\<close> outputs with a bias has \<open>d * u\<close> weights
  and \<open>u\<close> biases.
\<close>

fun count_params_from :: "nat \<Rightarrow> layer list \<Rightarrow> nat" where
  "count_params_from d [] = 0"
| "count_params_from d (Dense u # ls) = d * u + u + count_params_from u ls"
| "count_params_from d (LeakyReLU a # ls) = count_params_from d ls"
| "count_params_from d (ReLU # ls) = count_params_from d ls"
| "count_params_from d (TanH # ls) = count_params_from d ls"

definition count_params :: "sequential \<Rightarrow> nat" where
  "count_params m = count_params_from (fst m) (snd m)"

text \<open>
  Modelled from the spec: the architecture list of the notebook's Discriminator section
  (\<open>discriminator()\<close> itself is in \<open>cv/gan_tf.py\<close>).
\<close>

definition discriminator :: sequential where
  "discriminator = (784, [Dense 256, LeakyReLU (1 / 100), Dense 256, LeakyReLU (1 / 100), Dense 1])"

text \<open>
  Modelled from the spec: the architecture list of the notebook's Generator section;
  the input size is the number of noise dimensions.
\<close>

definition generator :: "nat \<Rightarrow> sequential" where
  "generator noise_dim = (noise_dim, [Dense 1024, ReLU, Dense 1024, ReLU, Dense 784, TanH])"

text \<open>\<open>test_discriminator\<close> and \<open>test_generator\<close> of the notebook.\<close>

definition test_discriminator :: "nat \<Rightarrow> sequential \<Rightarrow> nat printed" where
  "test_discriminator true_count discriminator_fn =
     (let model = discriminator_fn; cur_count = count_params model in
      if cur_count \<noteq> true_count
      then Fmt ''Incorrect number of parameters in discriminator. {0} instead of {1}. Check your achitecture.''
             [cur_count, true_count]
      else Text ''Correct number of parameters in discriminator.'')"

definition test_generator :: "nat \<Rightarrow> (nat \<Rightarrow> sequential) \<Rightarrow> nat printed" where
  "test_generator true_count generator_fn =
     (let model = generator_fn 4; cur_count = count_params model in
      if cur_count \<noteq> true_count
      then Fmt ''Incorrect number of parameters in generator. {0} instead of {1}. Check your achitecture.''
             [cur_count, true_count]
      else Text ''Correct number of parameters in generator.'')"

section \<open>Style-transfer notebook (PyTorch)\<close>

text \<open>
  Python indexing \<open>xs[i]\<close> of a list: a negative index counts from the end, an index
  outside the list raises IndexError.
\<close>

definition py_index :: "'a list \<Rightarrow> int \<Rightarrow> error + 'a" where
  "py_index xs i =
     (if 0 \<le> i \<and> i < int (length xs) then Inr (xs ! nat i)
      else if i < 0 \<and> - int (length xs) \<le> i then Inr (xs ! nat (int (length xs) + i))
      else Inl IndexError)"

subsection \<open>Tensors, the optimizer and the framework\<close>

text \<open>
  A leaf tensor of PyTorch: its data, its \<open>requires_grad\<close> flag and its accumulated
  gradient (\<open>None\<close> until a backward pass reaches it). The tensors the notebook
  mutates are the generated image and the parameters of \<open>cnn\<close>; a \<open>ref\<close> names one.
\<close>

record 't cell =
  data :: 't
  requires_grad :: bool
  grad :: "'t option"

datatype ref = Img | Param nat

text \<open>
  An instance of \<open>torch.optim.Adam\<close>: the tensors it was constructed over, its
  learning rate and its internal state (step count and moment estimates).
\<close>

record 'm adam =
  opt_params :: "ref list"
  lr :: real
  opt_state :: 'm

text \<open>
  The calls into \<open>cv/style_transfer_pytorch.py\<close> and PyTorch that the notebook makes.
  Their code is not part of the notebook, so each is a parameter:
  \<open>preprocess_open f size\<close> is \<open>preprocess(PIL.Image.open(f), size=size).type(dtype)\<close>,
  \<open>extract_features x ps\<close> runs the feature extractor with parameter values \<open>ps\<close> on \<open>x\<close>,
  \<open>uniform_like x\<close> is the random image \<open>torch.Tensor(x.size()).uniform_(0, 1)\<close>,
  \<open>autograd L x ps r\<close> is the gradient at \<open>(x, ps)\<close> of the scalar \<open>L\<close> with respect to
  the leaf \<open>r\<close>, \<open>adam_init\<close> is the internal state of a new Adam instance and
  \<open>adam_update lr m x g\<close> the Adam update of data \<open>x\<close> with gradient \<open>g\<close>.
\<close>

record ('t, 'm) torch_fw =
  preprocess_open :: "string \<Rightarrow> int \<Rightarrow> 't"
  extract_features :: "'t \<Rightarrow> 't list \<Rightarrow> 't list"
  gram_matrix :: "'t \<Rightarrow> 't"
  content_loss :: "real \<Rightarrow> 't \<Rightarrow> 't \<Rightarrow> 't"
  style_loss :: "'t list \<Rightarrow> int list \<Rightarrow> 't list \<Rightarrow> real list \<Rightarrow> 't"
  tv_loss :: "'t \<Rightarrow> real \<Rightarrow> 't"
  clamp :: "real \<Rightarrow> real \<Rightarrow> 't \<Rightarrow> 't"
  uniform_like :: "'t \<Rightarrow> 't"
  autograd :: "('t \<Rightarrow> 't list \<Rightarrow> error + 't) \<Rightarrow> 't \<Rightarrow> 't list \<Rightarrow> ref \<Rightarrow> 't"
  adam_init :: 'm
  adam_update :: "real \<Rightarrow> 'm \<Rightarrow> 't \<Rightarrow> 't \<Rightarrow> 't \<times> 'm"

text \<open>The framework calls that change a tensor or the optimizer, in the order made.\<close>

datatype 't call =
    Clamp real real
  | ZeroGrad
  | Backward 't
  | NewAdam "ref list" real
  | Step real

text \<open>
  The state \<open>style_transfer\<close> works on: the generated image, the parameters of the
  global \<open>cnn\<close>, the current optimizer, the calls made so far and the lines printed.
\<close>

record ('t, 'm) torch =
  img :: "'t cell"
  cnn :: "'t cell list"
  optimizer :: "'m adam"
  calls :: "'t call list"
  out :: "nat printed list"

text \<open>\<open>torch.optim.Adam(params, lr=lr)\<close>: a new instance.\<close>

definition Adam :: "('t, 'm) torch_fw \<Rightarrow> ref list \<Rightarrow> real \<Rightarrow> 'm adam" where
  "Adam fw params rate = \<lparr>opt_params = params, lr = rate, opt_state = adam_init fw\<rparr>"

text \<open>
  The setup cell: load the pretrained extractor (its parameter values are \<open>pretrained\<close>,
  each a leaf that requires a gradient, as PyTorch creates parameters) and then
  \<open>for param in cnn.parameters(): param.requires_grad = False\<close>.
\<close>

definition load_squeezenet :: "'t list \<Rightarrow> 't cell list" where
  "load_squeezenet pretrained =
     map (\<lambda>w. \<lparr>data = w, requires_grad = True, grad = None\<rparr>) pretrained"

definition freeze :: "'t cell list \<Rightarrow> 't cell list" where
  "freeze ps = map (\<lambda>param. param\<lparr>requires_grad := False\<rparr>) ps"

definition cnn_setup_cell :: "'t list \<Rightarrow> 't cell list" where
  "cnn_setup_cell pretrained = freeze (load_squeezenet pretrained)"

text \<open>Reading and writing the tensor a \<open>ref\<close> names; a parameter index outside \<open>cnn\<close> names nothing.\<close>

definition get_cell :: "('t, 'm) torch \<Rightarrow> ref \<Rightarrow> 't cell option" where
  "get_cell st r =
     (case r of Img \<Rightarrow> Some (img st)
      | Param i \<Rightarrow> if i < length (cnn st) then Some (cnn st ! i) else None)"

definition put_cell :: "ref \<Rightarrow> 't cell \<Rightarrow> ('t, 'm) torch \<Rightarrow> ('t, 'm) torch" where
  "put_cell r c st =
     (case r of Img \<Rightarrow> st\<lparr>img := c\<rparr>
      | Param i \<Rightarrow> if i < length (cnn st) then st\<lparr>cnn := (cnn st)[i := c]\<rparr> else st)"

text \<open>\<open>optimizer.zero_grad()\<close>: clears the gradient of every tensor of the optimizer.\<close>

fun zero_refs :: "ref list \<Rightarrow> ('t, 'm) torch \<Rightarrow> ('t, 'm) torch" where
  "zero_refs [] st = st"
| "zero_refs (r # rs) st =
     zero_refs rs (case get_cell st r of None \<Rightarrow> st | Some c \<Rightarrow> put_cell r (c\<lparr>grad := None\<rparr>) st)"

definition zero_grad :: "('t, 'm) torch \<Rightarrow> ('t, 'm) torch" where
  "zero_grad st = (zero_refs (opt_params (optimizer st)) st)\<lparr>calls := calls st @ [ZeroGrad]\<rparr>"

text \<open>
  \<open>loss.backward()\<close>: every leaf with \<open>requires_grad\<close> set receives the gradient of the
  loss, added to what it holds; a leaf without the flag is left alone.
\<close>

definition accumulate :: "'t::plus cell \<Rightarrow> 't \<Rightarrow> 't cell" where
  "accumulate c g =
     (if requires_grad c
      then c\<lparr>grad := Some (case grad c of None \<Rightarrow> g | Some g0 \<Rightarrow> g0 + g)\<rparr>
      else c)"

definition backward ::
  "('t::plus, 'm) torch_fw \<Rightarrow> ('t \<Rightarrow> 't list \<Rightarrow> error + 't) \<Rightarrow> 't \<Rightarrow> ('t, 'm) torch \<Rightarrow> ('t, 'm) torch" where
  "backward fw L loss st =
     (let x = data (img st); ps = map data (cnn st) in
      st\<lparr>img := accumulate (img st) (autograd fw L x ps Img),
         cnn := map (\<lambda>i. accumulate (cnn st ! i) (autograd fw L x ps (Param i)))
                  [0..<length (cnn st)],
         calls := calls st @ [Backward loss]\<rparr>)"

text \<open>
  \<open>optimizer.step()\<close>: every tensor of the optimizer that holds a gradient is
  updated by Adam; no other tensor is touched.
\<close>

fun step_refs :: "('t, 'm) torch_fw \<Rightarrow> ref list \<Rightarrow> ('t, 'm) torch \<Rightarrow> ('t, 'm) torch" where
  "step_refs fw [] st = st"
| "step_refs fw (r # rs) st =
     step_refs fw rs
       (case get_cell st r of
          None \<Rightarrow> st
        | Some c \<Rightarrow>
            (case grad c of
               None \<Rightarrow> st
             | Some g \<Rightarrow>
                 (let (x', m') = adam_update fw (lr (optimizer st)) (opt_state (optimizer st)) (data c) g in
                  (put_cell r (c\<lparr>data := x'\<rparr>) st)\<lparr>optimizer := (optimizer st)\<lparr>opt_state := m'\<rparr>\<rparr>)))"

definition step :: "('t, 'm) torch_fw \<Rightarrow> ('t, 'm) torch \<Rightarrow> ('t, 'm) torch" where
  "step fw st =
     (step_refs fw (opt_params (optimizer st)) st)\<lparr>calls := calls st @ [Step (lr (optimizer st))]\<rparr>"

subsection \<open>\<open>style_transfer\<close>\<close>

text \<open>The arguments of \<open>style_transfer\<close>; \<open>init_random\<close> defaults to \<open>False\<close>.\<close>

record st_args =
  content_image :: string
  style_image :: string
  image_size :: int
  style_size :: int
  content_layer :: int
  content_weight :: real
  style_layers :: "int list"
  style_weights :: "real list"
  tv_weight :: real
  init_random :: bool

text \<open>
  \<open>for idx in style_layers: style_targets.append(gram_matrix(feats[idx].clone()))\<close>
\<close>

fun style_targets_of :: "('t, 'm) torch_fw \<Rightarrow> 't list \<Rightarrow> int list \<Rightarrow> error + 't list" where
  "style_targets_of fw feats [] = Inr []"
| "style_targets_of fw feats (idx # rest) =
     (case py_index feats idx of
        Inl e \<Rightarrow> Inl e
      | Inr f \<Rightarrow>
          (case style_targets_of fw feats rest of
             Inl e \<Rightarrow> Inl e
           | Inr ts \<Rightarrow> Inr (gram_matrix fw f # ts)))"

text \<open>
  The loss of one iteration as a function of the image \<open>x\<close> and of the extractor's
  parameter values \<open>ps\<close>: lines \<open>feats = extract_features(img, cnn)\<close> to
  \<open>loss = c_loss + s_loss + t_loss\<close>.
\<close>

definition total_loss ::
  "('t::plus, 'm) torch_fw \<Rightarrow> st_args \<Rightarrow> 't \<Rightarrow> 't list \<Rightarrow> 't \<Rightarrow> 't list \<Rightarrow> error + 't" where
  "total_loss fw a content_target style_targets x ps =
     (let feats = extract_features fw x ps in
      case py_index feats (content_layer a) of
        Inl e \<Rightarrow> Inl e
      | Inr f \<Rightarrow>
          (let c_loss = content_loss fw (content_weight a) f content_target;
               s_loss = style_loss fw feats (style_layers a) style_targets (style_weights a);
               t_loss = tv_loss fw x (tv_weight a)
           in Inr (c_loss + s_loss + t_loss)))"

definition initial_lr :: real where "initial_lr = 3"
definition decayed_lr :: real where "decayed_lr = 1 / 10"
definition decay_lr_at :: nat where "decay_lr_at = 180"

text \<open>The body of \<open>for t in range(200)\<close>. The plotting calls draw and change nothing.\<close>

definition st_iteration ::
  "('t::plus, 'm) torch_fw \<Rightarrow> st_args \<Rightarrow> 't \<Rightarrow> 't list \<Rightarrow> nat \<Rightarrow> ('t, 'm) torch \<Rightarrow> error + ('t, 'm) torch" where
  "st_iteration fw a content_target style_targets t st =
     (let st1 = (if t < 190
                 then st\<lparr>img := (img st)\<lparr>data := clamp fw (- 1.5) 1.5 (data (img st))\<rparr>,
                         calls := calls st @ [Clamp (- 1.5) 1.5]\<rparr>
                 else st);
          st2 = zero_grad st1;
          L = total_loss fw a content_target style_targets
      in case L (data (img st2)) (map data (cnn st2)) of
           Inl e \<Rightarrow> Inl e
         | Inr loss \<Rightarrow>
             (let st3 = backward fw L loss st2;
                  st4 = (if t = decay_lr_at
                         then st3\<lparr>optimizer := Adam fw [Img] decayed_lr,
                                  calls := calls st3 @ [NewAdam [Img] decayed_lr]\<rparr>
                         else st3);
                  st5 = step fw st4
              in Inr (if t mod 100 = 0
                      then st5\<lparr>out := out st5 @ [Fmt ''Iteration {}'' [t]]\<rparr>
                      else st5)))"

text \<open>The first \<open>n\<close> iterations of the loop, stopping at the first exception.\<close>

fun st_run ::
  "('t::plus, 'm) torch_fw \<Rightarrow> st_args \<Rightarrow> 't \<Rightarrow> 't list \<Rightarrow> nat \<Rightarrow> ('t, 'm) torch \<Rightarrow> error + ('t, 'm) torch" where
  "st_run fw a content_target style_targets 0 st = Inr st"
| "st_run fw a content_target style_targets (Suc n) st =
     (case st_run fw a content_target style_targets n st of
        Inl e \<Rightarrow> Inl e
      | Inr s \<Rightarrow> st_iteration fw a content_target style_targets n s)"

text \<open>
  What \<open>style_transfer\<close> computes before its loop: the content target, the style
  targets and the state the loop starts from.
\<close>

definition st_prepare ::
  "('t::plus, 'm) torch_fw \<Rightarrow> 't cell list \<Rightarrow> st_args \<Rightarrow> error + ('t \<times> 't list \<times> ('t, 'm) torch)" where
  "st_prepare fw cnn0 a =
     (let content_img = preprocess_open fw (content_image a) (image_size a);
          feats = extract_features fw content_img (map data cnn0)
      in case py_index feats (content_layer a) of
           Inl e \<Rightarrow> Inl e
         | Inr content_target \<Rightarrow>
             (let style_img = preprocess_open fw (style_image a) (style_size a);
                  feats = extract_features fw style_img (map data cnn0)
              in case style_targets_of fw feats (style_layers a) of
                   Inl e \<Rightarrow> Inl e
                 | Inr style_targets \<Rightarrow>
                     (let x0 = (if init_random a then uniform_like fw content_img else content_img);
                          image = \<lparr>data = x0, requires_grad = True, grad = None\<rparr>
                      in Inr (content_target, style_targets,
                              \<lparr>img = image, cnn = cnn0, optimizer = Adam fw [Img] initial_lr,
                               calls = [NewAdam [Img] initial_lr], out = []\<rparr>))))"

text \<open>\<open>style_transfer\<close>, run with the global \<open>cnn\<close> holding the parameters \<open>cnn0\<close>.\<close>

definition style_transfer ::
  "('t::plus, 'm) torch_fw \<Rightarrow> 't cell list \<Rightarrow> st_args \<Rightarrow> error + ('t, 'm) torch" where
  "style_transfer fw cnn0 a =
     (case st_prepare fw cnn0 a of
        Inl e \<Rightarrow> Inl e
      | Inr (content_target, style_targets, st0) \<Rightarrow>
          (case st_run fw a content_target style_targets 200 st0 of
             Inl e \<Rightarrow> Inl e
           | Inr st \<Rightarrow> Inr (st\<lparr>out := out st @ [Fmt ''Iteration {}'' [199]]\<rparr>)))"

text \<open>Recognises a backward pass among the calls, to count them.\<close>

definition is_backward :: "'t call \<Rightarrow> bool" where
  "is_backward c = (case c of Backward l \<Rightarrow> True | _ \<Rightarrow> False)"

subsection \<open>A small instance of the framework\<close>

text \<open>
  An instance on which the definitions can be evaluated: tensors are single numbers,
  the extractor has thirteen layers, the optimizer state counts the steps taken. The
  arguments are those of the notebook's third parameter set.
\<close>

definition example_fw :: "(real, nat) torch_fw" where
  "example_fw =
     \<lparr>preprocess_open = (\<lambda>f size. real_of_int size / 1000),
      extract_features = (\<lambda>x ps. map (\<lambda>k. real k * x + sum_list ps) [0..<13]),
      gram_matrix = (\<lambda>f. f * f),
      content_loss = (\<lambda>w f p. w * (f - p) * (f - p)),
      style_loss = (\<lambda>feats layers targets weights. sum_list weights * sum_list targets),
      tv_loss = (\<lambda>x w. w * x * x),
      clamp = (\<lambda>lo hi x. max lo (min hi x)),
      uniform_like = (\<lambda>x. 1 / 2),
      autograd = (\<lambda>L x ps r. 2 * x),
      adam_init = 0,
      adam_update = (\<lambda>rate m x g. (x - rate * g, Suc m))\<rparr>"

definition example_args :: st_args where
  "example_args =
     \<lparr>content_image = ''styles/tubingen.jpg'', style_image = ''styles/starry_night.jpg'',
      image_size = 192, style_size = 192, content_layer = 3, content_weight = 6 / 100,
      style_layers = [1, 4, 6, 7], style_weights = [300000, 1000, 15, 3],
      tv_weight = 2 / 100, init_random = False\<rparr>"

section \<open>Setup cells\<close>

text \<open>
  \<open>s.replace(old, new)\<close> of Python strings: every non-overlapping occurrence of \<open>old\<close>,
  found from the left, is replaced; an empty \<open>old\<close> matches before every character
  and at the end.
\<close>

function str_replace :: "string \<Rightarrow> string \<Rightarrow> string \<Rightarrow> string" where
  "str_replace old new s =
     (if old = [] then new @ concat (map (\<lambda>c. c # new) s)
      else if s = [] then []
      else if take (length old) s = old then new @ str_replace old new (drop (length old) s)
      else hd s # str_replace old new (tl s))"
  by pat_completeness auto
termination
  by (relation "measure (\<lambda>(old, new, s). length s)") (auto simp: neq_Nil_conv)

declare str_replace.simps [simp del]

text \<open>
  The setup cell of the PyTorch style-transfer notebook from the line after its import
  of \<open>cv.style_transfer_pytorch\<close>, as a function of the value the user gives
  \<open>CHECKS_PATH\<close>. \<open>np_load p\<close> is \<open>dict(np.load(p))\<close>: the reference arrays, or the
  message of the exception NumPy raises. The result lists the files \<open>np.load\<close> was
  called on and gives the cell's outcome: the exception raised, or \<open>STYLES_FOLDER\<close> and
  \<open>answers\<close>.
\<close>

definition style_setup_cell ::
  "(string \<Rightarrow> string + 'r) \<Rightarrow> string option \<Rightarrow> string list \<times> (error + string \<times> 'r)" where
  "style_setup_cell np_load CHECKS_PATH =
     (case CHECKS_PATH of
        None \<Rightarrow> ([], Inl (AssertionError ''[!] Choose path to style-transfer-checks.npz''))
      | Some p \<Rightarrow>
          (let STYLES_FOLDER = str_replace ''style-transfer-checks.npz'' ''styles'' p in
           case np_load p of
             Inl m \<Rightarrow> ([p], Inl (FrameworkError m))
           | Inr answers \<Rightarrow> ([p], Inr (STYLES_FOLDER, answers))))"

text \<open>A Keras model: its weights and its \<open>trainable\<close> attribute.\<close>

record 'w keras_model =
  weights :: 'w
  trainable :: bool

text \<open>
  The setup cell of the network-visualization notebook, as a function of the value the
  user gives \<open>SAVE_PATH\<close>. \<open>path_exists\<close> is \<open>os.path.exists\<close>, \<open>SqueezeNet\<close> the model
  that \<open>SqueezeNet()\<close> constructs and \<open>load_weights m p\<close> the model after
  \<open>m.load_weights(p)\<close>, or the message of the exception TensorFlow raises.
\<close>

definition netvis_setup_cell ::
  "(string \<Rightarrow> bool) \<Rightarrow> 'w keras_model \<Rightarrow> ('w keras_model \<Rightarrow> string \<Rightarrow> string + 'w keras_model)
     \<Rightarrow> string option \<Rightarrow> error + 'w keras_model" where
  "netvis_setup_cell path_exists SqueezeNet load_weights SAVE_PATH =
     (case SAVE_PATH of
        None \<Rightarrow> Inl (AssertionError ''[!] Choose path to squeezenet.ckpt'')
      | Some p \<Rightarrow>
          if \<not> path_exists (p @ ''.index'') then Inl (ValueError ''You need to download SqueezeNet!'')
          else (case load_weights SqueezeNet p of
                  Inl m \<Rightarrow> Inl (FrameworkError m)
                | Inr model \<Rightarrow> Inr (model\<lparr>trainable := False\<rparr>)))"

section \<open>Network-visualization notebook (TensorFlow)\<close>

subsection \<open>The fooling-image cell\<close>

text \<open>\<open>tf.math.argmax\<close> of a vector: the first index of its largest entry.\<close>

definition argmax :: "'s::linorder list \<Rightarrow> nat option" where
  "argmax xs =
     (if xs = [] then None
      else Some (length (takeWhile (\<lambda>y. y \<noteq> Max (set xs)) xs)))"

text \<open>
  The cell that builds and checks the fooling image, up to its assertion (the rest of
  the cell plots). \<open>X\<close> is the batch of preprocessed images, \<open>make_fooling_image\<close> is
  imported from \<open>cv/net_visualization_tensorflow.py\<close>, \<open>apply_model m xs\<close> is the call
  \<open>m(xs)\<close>: one row of class scores for each image. The cell sets \<open>idx = 0\<close> and
  \<open>target_y = 6\<close>; it returns \<open>X_fooling\<close>.
\<close>

definition fooling_check ::
  "('x list \<Rightarrow> int \<Rightarrow> 'w keras_model \<Rightarrow> 'x list) \<Rightarrow> ('w keras_model \<Rightarrow> 'x list \<Rightarrow> 's::linorder list list)
     \<Rightarrow> 'w keras_model \<Rightarrow> 'x list \<Rightarrow> int \<Rightarrow> int \<Rightarrow> error + 'x list" where
  "fooling_check make_fooling_image apply_model model X idx target_y =
     (case py_index X idx of
        Inl e \<Rightarrow> Inl e
      | Inr x \<Rightarrow>
          (let Xi = [x];
               X_fooling = make_fooling_image Xi target_y model;
               scores = apply_model model X_fooling
           in case py_index scores 0 of
                Inl e \<Rightarrow> Inl e
              | Inr s \<Rightarrow>
                  (case argmax s of
                     None \<Rightarrow> Inl (FrameworkError ''argmax of an empty tensor'')
                   | Some k \<Rightarrow>
                       if int k = target_y then Inr X_fooling
                       else Inl (AssertionError ''The network is not fooled!''))))"

definition fooling_cell ::
  "('x list \<Rightarrow> int \<Rightarrow> 'w keras_model \<Rightarrow> 'x list) \<Rightarrow> ('w keras_model \<Rightarrow> 'x list \<Rightarrow> 's::linorder list list)
     \<Rightarrow> 'w keras_model \<Rightarrow> 'x list \<Rightarrow> error + 'x list" where
  "fooling_cell make_fooling_image apply_model model X =
     fooling_check make_fooling_image apply_model model X 0 6"

text \<open>
  The class the model predicts for the first image of a batch,
  \<open>tf.math.argmax(model(images)[0])\<close>, or the exception the expression raises.
\<close>

definition predict ::
  "('w keras_model \<Rightarrow> 'x list \<Rightarrow> 's::linorder list list) \<Rightarrow> 'w keras_model \<Rightarrow> 'x list \<Rightarrow> error + int" where
  "predict apply_model m images =
     (case py_index (apply_model m images) 0 of
        Inl e \<Rightarrow> Inl e
      | Inr s \<Rightarrow>
          (case argmax s of
             None \<Rightarrow> Inl (FrameworkError ''argmax of an empty tensor'')
           | Some k \<Rightarrow> Inr (int k)))"

text \<open>
  Modelled from the spec: \<open>make_fooling_image\<close> is defined in
  \<open>cv/net_visualization_tensorflow.py\<close>, which is not among the sources. By the spec a
  fooling image is an input perturbed via gradient ascent to flip the classifier's
  predicted label, and by the notebook the ascent goes on over the image, "stopping
  when the network classifies the image as the target class". \<open>ascent X target_y m\<close> is
  one step of gradient ascent on the score of \<open>target_y\<close>. The result is \<open>None\<close> when
  the ascent never reaches an image the network classifies as the target, and the
  exception when the model's output cannot be classified.
\<close>

partial_function (option) make_fooling_image ::
  "('x list \<Rightarrow> int \<Rightarrow> 'w keras_model \<Rightarrow> 'x list) \<Rightarrow> ('w keras_model \<Rightarrow> 'x list \<Rightarrow> 's::linorder list list)
     \<Rightarrow> 'x list \<Rightarrow> int \<Rightarrow> 'w keras_model \<Rightarrow> (error + 'x list) option" where
  "make_fooling_image ascent apply_model X_fooling target_y m =
     (if predict apply_model m X_fooling = Inr target_y then Some (Inr X_fooling)
      else if isl (predict apply_model m X_fooling) then Some (Inl (projl (predict apply_model m X_fooling)))
      else make_fooling_image ascent apply_model (ascent X_fooling target_y m) target_y m)"

text \<open>
  The fooling-image cell run with this \<open>make_fooling_image\<close>: \<open>None\<close> when the call
  never returns, otherwise the outcome of the cell with the image the call returned.
\<close>

definition fooling_cell_modelled ::
  "('x list \<Rightarrow> int \<Rightarrow> 'w keras_model \<Rightarrow> 'x list) \<Rightarrow> ('w keras_model \<Rightarrow> 'x list \<Rightarrow> 's::linorder list list)
     \<Rightarrow> 'w keras_model \<Rightarrow> 'x list \<Rightarrow> (error + 'x list) option" where
  "fooling_cell_modelled ascent apply_model m images =
     (case py_index images 0 of
        Inl e \<Rightarrow> Some (Inl e)
      | Inr x \<Rightarrow>
          (case make_fooling_image ascent apply_model [x] 6 m of
             None \<Rightarrow> None
           | Some (Inl e) \<Rightarrow> Some (Inl e)
           | Some (Inr X_fooling) \<Rightarrow> Some (fooling_cell (\<lambda>Xi target_y md. X_fooling) apply_model m images)))"

subsection \<open>\<open>create_class_visualization\<close>\<close>

text \<open>
  The image the cell works on: its rows, each a list of pixels, each pixel the list of
  its channel values. The batch \<open>X\<close> of the cell holds this one image.
\<close>

type_synonym image = "real list list list"

text \<open>
  Modelled from the spec: \<open>class_visualization_update_step\<close> and \<open>blur_image\<close> are
  defined in \<open>cv/net_visualization_tensorflow.py\<close>, which is not among the sources.
  Each is a stateless function of its arguments (the spec's "short, stateless
  mathematical function") that hands back a new image, as the calls
  \<open>X = class_visualization_update_step(X, model, ...)\<close> and
  \<open>X = blur_image(X, sigma=0.5)\<close> use them; what each computes is left open.
\<close>

record 'w tf_fw =
  class_visualization_update_step :: "image \<Rightarrow> 'w keras_model \<Rightarrow> int \<Rightarrow> real \<Rightarrow> real \<Rightarrow> image"
  blur_image :: "image \<Rightarrow> real \<Rightarrow> image"

text \<open>
  Modelled from the spec: \<open>jitter\<close> is defined in \<open>cv/net_visualization_tensorflow.py\<close>,
  which is not among the sources. The spec names the jitter regularization and says no
  more of it; the notebook jitters the image by the pixel offsets \<open>ox\<close> and \<open>oy\<close> and
  calls \<open>jitter\<close> with the negated offsets under the comment "Undo the jitter". The
  model is the shift that loses no pixel: the image is shifted cyclically by \<open>ox\<close>
  pixels along its width and by \<open>oy\<close> pixels along its height, a negative offset
  shifting the other way. \<open>roll k xs\<close> moves every element of \<open>xs\<close> by \<open>k\<close> places to
  the right, those pushed out at the end coming back in at the front.
\<close>

definition roll :: "int \<Rightarrow> 'a list \<Rightarrow> 'a list" where
  "roll k xs = rotate (nat ((- k) mod int (length xs))) xs"

definition jitter :: "image \<Rightarrow> int \<Rightarrow> int \<Rightarrow> image" where
  "jitter im ox oy = roll oy (map (roll ox) im)"

text \<open>
  The keyword arguments after the \<open>kwargs.pop\<close> lines, and their defaults.
\<close>

record cv_kwargs =
  l2_reg :: real
  learning_rate :: real
  num_iterations :: int
  blur_every :: int
  max_jitter :: int
  show_every :: int

definition default_kwargs :: cv_kwargs where
  "default_kwargs =
     \<lparr>l2_reg = 1 / 1000, learning_rate = 25, num_iterations = 100, blur_every = 10,
      max_jitter = 16, show_every = 25\<rparr>"

text \<open>
  \<open>np.random.randint(low, high)\<close>: a value of \<open>[low, high)\<close> determined by the raw
  output \<open>r\<close> of the generator; NumPy raises ValueError when the interval is empty.
\<close>

definition randint :: "int \<Rightarrow> int \<Rightarrow> nat \<Rightarrow> error + int" where
  "randint low high r =
     (if high \<le> low then Inl (ValueError ''low >= high'')
      else Inr (low + int (r mod nat (high - low))))"

text \<open>
  An arithmetic operation of NumPy on two one-dimensional arrays: entry by entry when
  the lengths agree, an array of length one being stretched over the other, and an
  exception of NumPy otherwise. Division is that of the reals: a zero entry of the
  divisor, for which NumPy gives an infinite or undefined entry, is outside the model.
\<close>

definition broadcast2 :: "(real \<Rightarrow> real \<Rightarrow> real) \<Rightarrow> real list \<Rightarrow> real list \<Rightarrow> error + real list" where
  "broadcast2 f xs ys =
     (if length xs = length ys then Inr (map2 f xs ys)
      else if length xs = 1 then Inr (map (f (xs ! 0)) ys)
      else if length ys = 1 then Inr (map (\<lambda>x. f x (ys ! 0)) xs)
      else Inl (FrameworkError ''operands could not be broadcast together''))"

text \<open>
  \<open>tf.clip_by_value(X, lo, hi)\<close> with one-dimensional bounds: TensorFlow computes
  \<open>maximum(minimum(X, hi), lo)\<close>, a bound with one entry serving every channel and a
  longer one giving its \<open>j\<close>-th entry to channel \<open>j\<close>, and raises when a bound does not
  broadcast against the channels or would change the shape of \<open>X\<close>. An image without
  pixels has no channels to hold the bounds against and is handed back as it is.
\<close>

definition bound_at :: "real list \<Rightarrow> nat \<Rightarrow> real" where
  "bound_at b j = (if length b = 1 then b ! 0 else b ! j)"

definition fits :: "real list \<Rightarrow> real list \<Rightarrow> bool" where
  "fits b px \<longleftrightarrow> length b = 1 \<or> length b = length px"

definition clip_pixel :: "real list \<Rightarrow> real list \<Rightarrow> real list \<Rightarrow> real list" where
  "clip_pixel lo hi px = map (\<lambda>j. max (min (px ! j) (bound_at hi j)) (bound_at lo j)) [0..<length px]"

definition clip_by_value :: "image \<Rightarrow> real list \<Rightarrow> real list \<Rightarrow> error + image" where
  "clip_by_value im lo hi =
     (if list_all (list_all (\<lambda>px. fits lo px \<and> fits hi px)) im
      then Inr (map (map (clip_pixel lo hi)) im)
      else Inl (FrameworkError ''Incompatible shapes''))"

text \<open>
  The state of the loop: the image \<open>X\<close>, the model it is given, and the titles of the
  figures shown so far (class name, \<open>t + 1\<close>, \<open>num_iterations\<close>).
\<close>

record 'w cv_state =
  X :: image
  model :: "'w keras_model"
  shown :: "(string \<times> int \<times> int) list"

text \<open>
  The body of \<open>for t in range(num_iterations)\<close>. \<open>mean\<close> and \<open>std\<close> are the constants
  \<open>SQUEEZENET_MEAN\<close> and \<open>SQUEEZENET_STD\<close> of \<open>cv/image_utils.py\<close>, \<open>class_names\<close> is
  the notebook's global dictionary, and \<open>rnd\<close> gives the raw outputs of NumPy's
  generator: iteration \<open>t\<close> consumes the two at \<open>2 * t\<close> and \<open>2 * t + 1\<close>.
\<close>

definition cv_iteration ::
  "'w tf_fw \<Rightarrow> real list \<Rightarrow> real list \<Rightarrow> (int \<rightharpoonup> string) \<Rightarrow> (nat \<Rightarrow> nat) \<Rightarrow> int \<Rightarrow> cv_kwargs
     \<Rightarrow> nat \<Rightarrow> 'w cv_state \<Rightarrow> error + 'w cv_state" where
  "cv_iteration fw mean std class_names rnd target_y kw t st =
     (case randint 0 (max_jitter kw) (rnd (2 * t)) of
        Inl e \<Rightarrow> Inl e
      | Inr ox \<Rightarrow>
     (case randint 0 (max_jitter kw) (rnd (2 * t + 1)) of
        Inl e \<Rightarrow> Inl e
      | Inr oy \<Rightarrow>
     (let X1 = jitter (X st) ox oy;
          X2 = class_visualization_update_step fw X1 (model st) target_y (l2_reg kw) (learning_rate kw);
          X3 = jitter X2 (- ox) (- oy)
      in case broadcast2 (\<lambda>m s. (- m) / s) mean std of
           Inl e \<Rightarrow> Inl e
         | Inr lo \<Rightarrow>
      (case broadcast2 (\<lambda>m s. (1 - m) / s) mean std of
           Inl e \<Rightarrow> Inl e
         | Inr hi \<Rightarrow>
      (case clip_by_value X3 lo hi of
           Inl e \<Rightarrow> Inl e
         | Inr X4 \<Rightarrow>
             if blur_every kw = 0 then Inl ZeroDivisionError
             else
               (let X5 = (if int t mod blur_every kw = 0 then blur_image fw X4 (1 / 2) else X4);
                    st5 = st\<lparr>X := X5\<rparr>
                in if t \<noteq> 0 \<and> show_every kw = 0 then Inl ZeroDivisionError
                   else if t = 0 \<or> (int t + 1) mod show_every kw = 0 \<or> int t = num_iterations kw - 1
                   then (case class_names target_y of
                           None \<Rightarrow> Inl (KeyError ''target_y'')
                         | Some class_name \<Rightarrow>
                             Inr (st5\<lparr>shown := shown st5 @ [(class_name, int t + 1, num_iterations kw)]\<rparr>))
                   else Inr st5))))))"

text \<open>The first \<open>n\<close> iterations of the loop, stopping at the first exception.\<close>

fun cv_run ::
  "'w tf_fw \<Rightarrow> real list \<Rightarrow> real list \<Rightarrow> (int \<rightharpoonup> string) \<Rightarrow> (nat \<Rightarrow> nat) \<Rightarrow> int \<Rightarrow> cv_kwargs
     \<Rightarrow> nat \<Rightarrow> 'w cv_state \<Rightarrow> error + 'w cv_state" where
  "cv_run fw mean std class_names rnd target_y kw 0 st = Inr st"
| "cv_run fw mean std class_names rnd target_y kw (Suc n) st =
     (case cv_run fw mean std class_names rnd target_y kw n st of
        Inl e \<Rightarrow> Inl e
      | Inr s \<Rightarrow> cv_iteration fw mean std class_names rnd target_y kw n s)"

text \<open>
  \<open>create_class_visualization(target_y, model, **kwargs)\<close>. \<open>X0\<close> is the random start
  image after \<open>preprocess_image(X)[None]\<close>. The function returns the final image; the
  whole final state is kept here, its \<open>model\<close> field being the notebook's global model.
\<close>

definition create_class_visualization ::
  "'w tf_fw \<Rightarrow> real list \<Rightarrow> real list \<Rightarrow> (int \<rightharpoonup> string) \<Rightarrow> (nat \<Rightarrow> nat) \<Rightarrow> image
     \<Rightarrow> int \<Rightarrow> 'w keras_model \<Rightarrow> cv_kwargs \<Rightarrow> error + 'w cv_state" where
  "create_class_visualization fw mean std class_names rnd X0 target_y m kw =
     cv_run fw mean std class_names rnd target_y kw (nat (num_iterations kw))
       \<lparr>X = X0, model = m, shown = []\<rparr>"

section \<open>GAN notebook: \<open>test_sample_noise\<close>\<close>

text \<open>
  What \<open>sample_noise\<close> can hand back, as far as the test tells the cases apart: a
  \<open>tf.Tensor\<close>, another TensorFlow object with a \<open>get_shape\<close> method that is not a
  \<open>tf.Tensor\<close> (a \<open>tf.Variable\<close>), or a NumPy array, which has no \<open>get_shape\<close>.
  Each has a shape and its entries in row-major order.
\<close>

datatype kind = TfTensor | TfVariable | NdArray

record noise =
  kind :: kind
  shape :: "nat list"
  entries :: "real list"

text \<open>\<open>np.array_equal(a, b)\<close>: same shape and the same entries.\<close>

definition array_equal :: "noise \<Rightarrow> noise \<Rightarrow> bool" where
  "array_equal a b \<longleftrightarrow> shape a = shape b \<and> entries a = entries b"

text \<open>
  \<open>test_sample_noise\<close>. \<open>sample_noise\<close> is imported from \<open>cv/gan_tf.py\<close>; it draws from
  a random generator, whose state \<open>g\<close> each call takes and hands on.
\<close>

definition test_sample_noise ::
  "('g \<Rightarrow> nat \<Rightarrow> nat \<Rightarrow> noise \<times> 'g) \<Rightarrow> 'g \<Rightarrow> error + string" where
  "test_sample_noise sample_noise g0 =
     (let batch_size = 3; dim = 4;
          (z, g1) = sample_noise g0 batch_size dim
      in if kind z = NdArray then Inl (AttributeError ''get_shape'')
         else if shape z \<noteq> [batch_size, dim] then Inl (AssertionError [])
         else if kind z \<noteq> TfTensor then Inl (AssertionError [])
         else
           (let (z1, g2) = sample_noise g1 batch_size dim;
                (z2, g3) = sample_noise g2 batch_size dim
            in if array_equal z1 z2 then Inl (AssertionError [])
               else if \<not> (list_all (\<lambda>v. - 1 \<le> v) (entries z1) \<and> list_all (\<lambda>v. v \<le> 1) (entries z1))
               then Inl (AssertionError [])
               else Inr ''All tests passed!''))"

section \<open>The numeric checks of the notebooks\<close>

text \<open>
  The whitespace characters of Python's \<open>\<^verbatim>\<open>\s\<close>\<close> on a \<open>str\<close>, among the characters
  with a code point below 256 (the characters of \<open>string\<close>): the blank, the control
  characters \<open>0x09\<close> to \<open>0x0D\<close> and \<open>0x1C\<close> to \<open>0x1F\<close>, the next-line character
  \<open>0x85\<close> and the no-break space \<open>0xA0\<close>.
\<close>

definition is_space :: "char \<Rightarrow> bool" where
  "is_space c \<longleftrightarrow> c \<in> set [CHR '' '', CHR 0x09, CHR 0x0A, CHR 0x0B, CHR 0x0C, CHR 0x0D,
                              CHR 0x1C, CHR 0x1D, CHR 0x1E, CHR 0x1F, CHR 0x85, CHR 0xA0]"

text \<open>
  \<open>re.search(r"for \S* in", line)\<close>: somewhere in the line stands \<open>for\<close>, a blank, any
  number of non-whitespace characters, a blank and \<open>in\<close>.
\<close>

fun nonspace_then_in :: "string \<Rightarrow> bool" where
  "nonspace_then_in [] = False"
| "nonspace_then_in (c # cs) =
     (take 3 (c # cs) = '' in'' \<or> (\<not> is_space c \<and> nonspace_then_in cs))"

fun search_for_in :: "string \<Rightarrow> bool" where
  "search_for_in [] = False"
| "search_for_in (c # cs) =
     ((take 4 (c # cs) = ''for '' \<and> nonspace_then_in (drop 4 (c # cs))) \<or> search_for_in cs)"

text \<open>
  What a function under check hands back to the cell that checks it: a tensor of
  PyTorch, or an object that is no tensor, such as the \<open>None\<close> of a function whose body
  is not written yet.
\<close>

datatype 't returned = Tensor 't | NoTensor

text \<open>
  \<open>r.cpu().data.numpy()\<close>: the values of a tensor as an array; an object that is no
  tensor has no attribute \<open>cpu\<close>.
\<close>

definition cpu_data_numpy :: "'t returned \<Rightarrow> error + 't" where
  "cpu_data_numpy r = (case r of Tensor v \<Rightarrow> Inr v | NoTensor \<Rightarrow> Inl (AttributeError ''cpu''))"

text \<open>
  What the checks of the style-transfer notebook call besides \<open>extract_features\<close> and
  \<open>preprocess\<close> of \<open>torch_fw\<close>. \<open>features_from_img\<close> and \<open>rel_error\<close> are helpers of
  \<open>cv/style_transfer_pytorch.py\<close>; \<open>rel_error\<close> returns the number the check prints, or
  raises. \<open>zeros_like x\<close> is \<open>torch.zeros(*x.data.size()).type(dtype)\<close>. The four
  functions under check, \<open>content_loss\<close>, \<open>gram_matrix\<close>, \<open>style_loss\<close> and \<open>tv_loss\<close>
  of the same module, are taken as the check finds them, so with any return value,
  where \<open>torch_fw\<close> holds them as \<open>style_transfer\<close> needs them. \<open>tv_loss_source\<close> is the
  list of source lines of \<open>tv_loss\<close> that \<open>inspect.getsourcelines\<close> returns.
\<close>

record ('t, 'e) check_fw =
  features_from_img :: "string \<Rightarrow> int \<Rightarrow> 't list \<Rightarrow> 't list \<times> 't"
  zeros_like :: "'t \<Rightarrow> 't"
  rel_error :: "'t \<Rightarrow> 't \<Rightarrow> error + 'e"
  checked_content_loss :: "real \<Rightarrow> 't \<Rightarrow> 't \<Rightarrow> 't returned"
  checked_gram_matrix :: "'t \<Rightarrow> 't returned"
  checked_style_loss :: "'t list \<Rightarrow> int list \<Rightarrow> 't returned list \<Rightarrow> real list \<Rightarrow> 't returned"
  checked_tv_loss :: "'t \<Rightarrow> real \<Rightarrow> 't returned"
  tv_loss_source :: "string list"

text \<open>
  \<open>content_loss_test(correct)\<close>. The global \<open>cnn\<close> holds the parameter values
  \<open>cnn_params\<close>; \<open>correct\<close> is the array \<open>answers['cl_out']\<close>.
\<close>

definition content_loss_test ::
  "('t, 'm) torch_fw \<Rightarrow> ('t, 'e) check_fw \<Rightarrow> string \<Rightarrow> 't list \<Rightarrow> 't \<Rightarrow> error + 'e printed list" where
  "content_loss_test fw ck STYLES_FOLDER cnn_params correct =
     (let content_image = STYLES_FOLDER @ ''/tubingen.jpg'';
          image_size = 192;
          content_layer = 3;
          content_weight = 6 / 100;
          (c_feats, content_img_var) = features_from_img ck content_image image_size cnn_params;
          bad_img = zeros_like ck content_img_var;
          feats = extract_features fw bad_img cnn_params
      in case py_index c_feats content_layer of
           Inl e \<Rightarrow> Inl e
         | Inr cf \<Rightarrow>
             (case py_index feats content_layer of
                Inl e \<Rightarrow> Inl e
              | Inr f \<Rightarrow>
                  (case cpu_data_numpy (checked_content_loss ck content_weight cf f) of
                     Inl e \<Rightarrow> Inl e
                   | Inr student_output \<Rightarrow>
                       (case rel_error ck correct student_output of
                          Inl e \<Rightarrow> Inl e
                        | Inr error \<Rightarrow> Inr [Fmt ''Maximum error is {:.3f}'' [error]]))))"

text \<open>\<open>gram_matrix_test(correct)\<close>; \<open>feats[5].clone()\<close> is a copy of the feature.\<close>

definition gram_matrix_test ::
  "('t, 'm) torch_fw \<Rightarrow> ('t, 'e) check_fw \<Rightarrow> string \<Rightarrow> 't list \<Rightarrow> 't \<Rightarrow> error + 'e printed list" where
  "gram_matrix_test fw ck STYLES_FOLDER cnn_params correct =
     (let style_image = STYLES_FOLDER @ ''/starry_night.jpg'';
          style_size = 192;
          (feats, _) = features_from_img ck style_image style_size cnn_params
      in case py_index feats 5 of
           Inl e \<Rightarrow> Inl e
         | Inr f \<Rightarrow>
             (case cpu_data_numpy (checked_gram_matrix ck f) of
                Inl e \<Rightarrow> Inl e
              | Inr student_output \<Rightarrow>
                  (case rel_error ck correct student_output of
                     Inl e \<Rightarrow> Inl e
                   | Inr error \<Rightarrow> Inr [Fmt ''Maximum error is {:.3f}'' [error]])))"

text \<open>
  The loop of \<open>style_loss_test\<close>:
  \<open>for idx in style_layers: style_targets.append(gram_matrix(feats[idx].clone()))\<close>.
  What \<open>gram_matrix\<close> returns goes into the list as it is.
\<close>

fun checked_style_targets :: "('t, 'e) check_fw \<Rightarrow> 't list \<Rightarrow> int list \<Rightarrow> error + 't returned list" where
  "checked_style_targets ck feats [] = Inr []"
| "checked_style_targets ck feats (idx # rest) =
     (case py_index feats idx of
        Inl e \<Rightarrow> Inl e
      | Inr f \<Rightarrow>
          (case checked_style_targets ck feats rest of
             Inl e \<Rightarrow> Inl e
           | Inr ts \<Rightarrow> Inr (checked_gram_matrix ck f # ts)))"

text \<open>\<open>style_loss_test(correct)\<close>.\<close>

definition style_loss_test ::
  "('t, 'm) torch_fw \<Rightarrow> ('t, 'e) check_fw \<Rightarrow> string \<Rightarrow> 't list \<Rightarrow> 't \<Rightarrow> error + 'e printed list" where
  "style_loss_test fw ck STYLES_FOLDER cnn_params correct =
     (let content_image = STYLES_FOLDER @ ''/tubingen.jpg'';
          style_image = STYLES_FOLDER @ ''/starry_night.jpg'';
          image_size = 192;
          style_size = 192;
          style_layers = [1, 4, 6, 7];
          style_weights = [300000, 1000, 15, 3];
          (c_feats, _) = features_from_img ck content_image image_size cnn_params;
          (feats, _) = features_from_img ck style_image style_size cnn_params
      in case checked_style_targets ck feats style_layers of
           Inl e \<Rightarrow> Inl e
         | Inr style_targets \<Rightarrow>
             (case cpu_data_numpy (checked_style_loss ck c_feats style_layers style_targets style_weights) of
                Inl e \<Rightarrow> Inl e
              | Inr student_output \<Rightarrow>
                  (case rel_error ck correct student_output of
                     Inl e \<Rightarrow> Inl e
                   | Inr error \<Rightarrow> Inr [Fmt ''Error is {:.3f}'' [error]])))"

text \<open>
  \<open>tv_loss_test(correct)\<close>: the error is printed first, the warning after it when a
  source line of \<open>tv_loss\<close> matches the loop pattern.
\<close>

definition tv_loss_test ::
  "('t, 'm) torch_fw \<Rightarrow> ('t, 'e) check_fw \<Rightarrow> string \<Rightarrow> 't \<Rightarrow> error + 'e printed list" where
  "tv_loss_test fw ck STYLES_FOLDER correct =
     (let content_image = STYLES_FOLDER @ ''/tubingen.jpg'';
          image_size = 192;
          tv_weight = 2 / 100;
          content_img = preprocess_open fw content_image image_size
      in case cpu_data_numpy (checked_tv_loss ck content_img tv_weight) of
           Inl e \<Rightarrow> Inl e
         | Inr student_output \<Rightarrow>
             (case rel_error ck correct student_output of
                Inl e \<Rightarrow> Inl e
              | Inr error \<Rightarrow>
                  (let printed = [Fmt ''Error is {:.4f}'' [error]];
                       lines = tv_loss_source ck;
                       used_loop = list_ex search_for_in lines
                   in Inr (if used_loop
                           then printed @ [Text ''WARNING!!!! - Your implementation of tv_loss contains a loop! To receive full credit, your implementation should not have any loops'']
                           else printed))))"

text \<open>
  The checks of the GAN notebook. The loss functions are imported from
  \<open>cv/gan_tf.py\<close> and are parameters, with any return value of type \<open>'r\<close>, as is that
  module's \<open>rel_error\<close>, which returns the number the check prints, or raises.
  \<open>logits_real\<close> and \<open>logits_fake\<close> are the tensors \<open>tf.constant\<close> makes of the arrays.
\<close>

definition test_discriminator_loss ::
  "('t \<Rightarrow> 't \<Rightarrow> 'r) \<Rightarrow> ('t \<Rightarrow> 'r \<Rightarrow> error + 'e) \<Rightarrow> 't \<Rightarrow> 't \<Rightarrow> 't \<Rightarrow> error + 'e printed list" where
  "test_discriminator_loss discriminator_loss rel_err logits_real logits_fake d_loss_true =
     (let d_loss = discriminator_loss logits_real logits_fake
      in case rel_err d_loss_true d_loss of
           Inl e \<Rightarrow> Inl e
         | Inr v \<Rightarrow> Inr [Fmt ''Maximum error in d_loss: %g'' [v]])"

definition test_generator_loss ::
  "('t \<Rightarrow> 'r) \<Rightarrow> ('t \<Rightarrow> 'r \<Rightarrow> error + 'e) \<Rightarrow> 't \<Rightarrow> 't \<Rightarrow> error + 'e printed list" where
  "test_generator_loss generator_loss rel_err logits_fake g_loss_true =
     (let g_loss = generator_loss logits_fake
      in case rel_err g_loss_true g_loss of
           Inl e \<Rightarrow> Inl e
         | Inr v \<Rightarrow> Inr [Fmt ''Maximum error in g_loss: %g'' [v]])"

definition test_lsgan_loss ::
  "('t \<Rightarrow> 't \<Rightarrow> 'r) \<Rightarrow> ('t \<Rightarrow> 'r) \<Rightarrow> ('t \<Rightarrow> 'r \<Rightarrow> error + 'e) \<Rightarrow> 't \<Rightarrow> 't \<Rightarrow> 't \<Rightarrow> 't
     \<Rightarrow> error + 'e printed list" where
  "test_lsgan_loss ls_discriminator_loss ls_generator_loss rel_err score_real score_fake d_loss_true g_loss_true =
     (let d_loss = ls_discriminator_loss score_real score_fake;
          g_loss = ls_generator_loss score_fake
      in case rel_err d_loss_true d_loss of
           Inl e \<Rightarrow> Inl e
         | Inr vd \<Rightarrow>
             (case rel_err g_loss_true g_loss of
                Inl e \<Rightarrow> Inl e
              | Inr vg \<Rightarrow> Inr [Fmt ''Maximum error in d_loss: %g'' [vd],
                                 Fmt ''Maximum error in g_loss: %g'' [vg]]))"

text \<open>
  An instance of the checks' environment for \<open>example_fw\<close>: the functions under check
  are those of \<open>example_fw\<close>, \<open>rel_error\<close> is 0 on equal numbers and 1 otherwise, and
  the source of \<open>tv_loss\<close> contains a loop. In \<open>stub_ck\<close> the four functions under check
  return \<open>None\<close>.
\<close>

definition example_ck :: "(real, real) check_fw" where
  "example_ck =
     \<lparr>features_from_img = (\<lambda>f size ps. (extract_features example_fw (real_of_int size / 1000) ps,
                                            real_of_int size / 1000)),
      zeros_like = (\<lambda>x. 0),
      rel_error = (\<lambda>x y. Inr (if x = y then 0 else 1)),
      checked_content_loss = (\<lambda>w f p. Tensor (content_loss example_fw w f p)),
      checked_gram_matrix = (\<lambda>f. Tensor (gram_matrix example_fw f)),
      checked_style_loss = (\<lambda>feats layers targets weights.
         Tensor (sum_list weights * sum_list (map (\<lambda>r. case r of Tensor v \<Rightarrow> v | NoTensor \<Rightarrow> 0) targets))),
      checked_tv_loss = (\<lambda>x w. Tensor (tv_loss example_fw x w)),
      tv_loss_source = [''def tv_loss(img, tv_weight):'', ''    loss = 0'',
                        ''    for c in range(3):'', ''        loss += 1'', ''    return loss'']\<rparr>"

definition stub_ck :: "(real, real) check_fw" where
  "stub_ck =
     example_ck\<lparr>checked_content_loss := (\<lambda>w f p. NoTensor),
                checked_gram_matrix := (\<lambda>f. NoTensor),
                checked_style_loss := (\<lambda>feats layers targets weights. NoTensor),
                checked_tv_loss := (\<lambda>x w. NoTensor),
                tv_loss_source := [''def tv_loss(img, tv_weight):'', ''    pass'']\<rparr>"

text \<open>
  An instance of the TensorFlow side on which \<open>create_class_visualization\<close> can be
  evaluated: two iterations, class 76 named, and an image of one row of two pixels.
\<close>

definition example_tfw :: "int tf_fw" where
  "example_tfw =
     \<lparr>class_visualization_update_step = (\<lambda>im m y l2 rate. map (map (map (\<lambda>v. v + rate * (1 - l2 * v)))) im),
      blur_image = (\<lambda>im sigma. map (map (map (\<lambda>v. v * sigma))) im)\<rparr>"

definition example_kwargs :: cv_kwargs where
  "example_kwargs = default_kwargs\<lparr>num_iterations := 2\<rparr>"

definition example_model :: "int keras_model" where
  "example_model = \<lparr>weights = 0, trainable = False\<rparr>"

definition example_image :: image where
  "example_image = [[[0, 0, 0], [1, 1, 1]]]"

section \<open>Theorems\<close>

lemma count_params_discriminator: "count_params discriminator = 267009"
  by (simp add: count_params_def discriminator_def)

lemma count_params_generator: "count_params (generator 4) = 1858320"
  by (simp add: count_params_def generator_def)

text \<open>
  C8. The prescribed three-layer discriminator (784 to 256, 256 to 256, 256 to 1, each
  with a bias) has exactly 267,009 trainable parameters and the generator for a
  4-dimensional noise input (4 to 1024, 1024 to 1024, 1024 to 784, each with a bias)
  has exactly 1,858,320: the counts the tests use as defaults, so both tests print
  their success line.
\<close>

theorem gan_parameter_counts:
  "count_params discriminator = 200960 + 65792 + 257
   \<and> count_params discriminator = 267009
   \<and> count_params (generator 4) = 5120 + 1049600 + 803600
   \<and> count_params (generator 4) = 1858320
   \<and> test_discriminator 267009 discriminator = Text ''Correct number of parameters in discriminator.''
   \<and> test_generator 1858320 generator = Text ''Correct number of parameters in generator.''"
  by (simp add: test_discriminator_def test_generator_def Let_def
      count_params_discriminator count_params_generator)

subsection \<open>The tensor store and the loop of \<open>style_transfer\<close>\<close>

lemma accumulate_frozen: "\<not> requires_grad c \<Longrightarrow> accumulate c g = c"
  by (simp add: accumulate_def)

lemma accumulate_data: "data (accumulate c g) = data c"
  by (simp add: accumulate_def)

lemma accumulate_flag: "requires_grad (accumulate c g) = requires_grad c"
  by (simp add: accumulate_def)

lemma backward_frozen:
  assumes "\<forall>c \<in> set (cnn st). \<not> requires_grad c"
  shows "cnn (backward fw L loss st) = cnn st"
proof -
  have "map (\<lambda>i. accumulate (cnn st ! i) (g i)) [0..<length (cnn st)] = cnn st" for g
    using assms by (intro nth_equalityI) (simp_all add: accumulate_frozen)
  then show ?thesis by (simp add: backward_def Let_def)
qed

lemma backward_cnn_data: "map data (cnn (backward fw L loss st)) = map data (cnn st)"
  by (intro nth_equalityI) (simp_all add: backward_def Let_def accumulate_data)

lemma backward_img: "img (backward fw L loss st) = accumulate (img st) (autograd fw L (data (img st)) (map data (cnn st)) Img)"
  by (simp add: backward_def Let_def)

lemma backward_optimizer: "optimizer (backward fw L loss st) = optimizer st"
  by (simp add: backward_def Let_def)

lemma zero_grad_img_only:
  "opt_params (optimizer st) = [Img] \<Longrightarrow>
   zero_grad st = st\<lparr>img := (img st)\<lparr>grad := None\<rparr>, calls := calls st @ [ZeroGrad]\<rparr>"
  by (simp add: zero_grad_def get_cell_def put_cell_def)

lemma step_img_only:
  "opt_params (optimizer st) = [Img] \<Longrightarrow>
   step fw st =
     (case grad (img st) of
        None \<Rightarrow> st\<lparr>calls := calls st @ [Step (lr (optimizer st))]\<rparr>
      | Some g \<Rightarrow>
          st\<lparr>img := (img st)\<lparr>data := fst (adam_update fw (lr (optimizer st)) (opt_state (optimizer st)) (data (img st)) g)\<rparr>,
             optimizer := (optimizer st)\<lparr>opt_state := snd (adam_update fw (lr (optimizer st)) (opt_state (optimizer st)) (data (img st)) g)\<rparr>,
             calls := calls st @ [Step (lr (optimizer st))]\<rparr>)"
  by (simp add: step_def get_cell_def put_cell_def split: option.splits prod.splits)


lemma total_loss_Inr:
  "total_loss fw a ct stg x ps = Inr loss \<Longrightarrow>
   \<exists>f. py_index (extract_features fw x ps) (content_layer a) = Inr f \<and>
       loss = content_loss fw (content_weight a) f ct
            + style_loss fw (extract_features fw x ps) (style_layers a) stg (style_weights a)
            + tv_loss fw x (tv_weight a)"
  by (auto simp: total_loss_def Let_def split: sum.splits)


lemma st_iteration_Inr:
  assumes it: "st_iteration fw a ct stg t st = Inr st'"
    and inv: "opt_params (optimizer st) = [Img]" "requires_grad (img st)"
  defines "x \<equiv> (if t < 190 then clamp fw (- 1.5) 1.5 (data (img st)) else data (img st))"
  defines "ps \<equiv> map data (cnn st)"
  defines "opt \<equiv> (if t = 180 then Adam fw [Img] (1 / 10) else optimizer st)"
  defines "g \<equiv> autograd fw (total_loss fw a ct stg) x ps Img"
  shows "\<exists>loss. total_loss fw a ct stg x ps = Inr loss \<and>
     calls st' = calls st @ (if t < 190 then [Clamp (- 1.5) 1.5] else []) @ [ZeroGrad, Backward loss]
                 @ (if t = 180 then [NewAdam [Img] (1 / 10)] else []) @ [Step (lr opt)] \<and>
     data (img st') = fst (adam_update fw (lr opt) (opt_state opt) x g) \<and>
     optimizer st' = opt\<lparr>opt_state := snd (adam_update fw (lr opt) (opt_state opt) x g)\<rparr> \<and>
     requires_grad (img st') \<and>
     map data (cnn st') = map data (cnn st) \<and>
     ((\<forall>c \<in> set (cnn st). \<not> requires_grad c) \<longrightarrow> cnn st' = cnn st) \<and>
     out st' = out st @ (if t mod 100 = 0 then [Fmt ''Iteration {}'' [t]] else [])"
proof -
  define st1 where "st1 = (if t < 190
                 then st\<lparr>img := (img st)\<lparr>data := clamp fw (- 1.5) 1.5 (data (img st))\<rparr>,
                         calls := calls st @ [Clamp (- 1.5) 1.5]\<rparr>
                 else st)"
  define st2 where "st2 = zero_grad st1"
  have opt1: "opt_params (optimizer st1) = [Img]" using inv by (simp add: st1_def)
  have st2: "st2 = st1\<lparr>img := (img st1)\<lparr>grad := None\<rparr>, calls := calls st1 @ [ZeroGrad]\<rparr>"
    unfolding st2_def by (rule zero_grad_img_only [OF opt1])
  have x2: "data (img st2) = x" and ps2: "map data (cnn st2) = ps" and cnn2: "cnn st2 = cnn st"
    and rg2: "requires_grad (img st2)" and g2: "grad (img st2) = None"
    and o2: "optimizer st2 = optimizer st" and out2: "out st2 = out st"
    and c2: "calls st2 = calls st @ (if t < 190 then [Clamp (- 1.5) 1.5] else []) @ [ZeroGrad]"
    using inv by (simp_all add: st2 st1_def x_def ps_def)
  from it obtain loss where loss: "total_loss fw a ct stg x ps = Inr loss"
    and rest: "st' = (let st3 = backward fw (total_loss fw a ct stg) loss st2;
                  st4 = (if t = decay_lr_at
                         then st3\<lparr>optimizer := Adam fw [Img] decayed_lr,
                                  calls := calls st3 @ [NewAdam [Img] decayed_lr]\<rparr>
                         else st3);
                  st5 = step fw st4
              in (if t mod 100 = 0
                      then st5\<lparr>out := out st5 @ [Fmt ''Iteration {}'' [t]]\<rparr>
                      else st5))"
    unfolding st_iteration_def Let_def st1_def [symmetric] st2_def [symmetric] x2 ps2
    by (auto split: sum.splits)
  define st3 where "st3 = backward fw (total_loss fw a ct stg) loss st2"
  define st4 where "st4 = (if t = decay_lr_at
                         then st3\<lparr>optimizer := Adam fw [Img] decayed_lr,
                                  calls := calls st3 @ [NewAdam [Img] decayed_lr]\<rparr>
                         else st3)"
  have img3: "img st3 = (img st2)\<lparr>grad := Some g\<rparr>"
    using rg2 g2 by (simp add: st3_def backward_img accumulate_def x2 ps2 g_def)
  have cnn3d: "map data (cnn st3) = map data (cnn st)"
    by (simp add: st3_def backward_cnn_data cnn2)
  have cnn3: "(\<forall>c \<in> set (cnn st). \<not> requires_grad c) \<Longrightarrow> cnn st3 = cnn st"
    using backward_frozen [of st2 fw "total_loss fw a ct stg" loss] by (simp add: st3_def cnn2)
  have o3: "optimizer st3 = optimizer st" and out3: "out st3 = out st"
    and c3: "calls st3 = calls st2 @ [Backward loss]"
    by (simp_all add: st3_def backward_def Let_def o2 out2)
  have o4: "optimizer st4 = opt" and img4: "img st4 = img st3" and cnn4: "cnn st4 = cnn st3"
    and out4: "out st4 = out st"
    and c4: "calls st4 = calls st3 @ (if t = 180 then [NewAdam [Img] (1 / 10)] else [])"
    by (simp_all add: st4_def opt_def o3 out3 decay_lr_at_def decayed_lr_def)
  have p4: "opt_params (optimizer st4) = [Img]"
    using inv by (simp add: o4 opt_def Adam_def)
  have st5: "step fw st4 =
         st4\<lparr>img := (img st4)\<lparr>data := fst (adam_update fw (lr opt) (opt_state opt) x g)\<rparr>,
             optimizer := opt\<lparr>opt_state := snd (adam_update fw (lr opt) (opt_state opt) x g)\<rparr>,
             calls := calls st4 @ [Step (lr opt)]\<rparr>"
    using step_img_only [OF p4, of fw] by (simp add: img4 img3 o4 x2)
  have st': "st' = (if t mod 100 = 0
                      then (step fw st4)\<lparr>out := out (step fw st4) @ [Fmt ''Iteration {}'' [t]]\<rparr>
                      else step fw st4)"
    using rest by (simp add: Let_def st3_def st4_def)
  show ?thesis
    apply (rule exI [of _ loss])
    using cnn3
    by (simp add: loss st' st5 c4 c3 c2 img4 img3 rg2 cnn4 cnn3d out4)
qed


lemma st_run_Suc_Inr:
  "st_run fw a ct stg (Suc n) st0 = Inr st' \<Longrightarrow>
   \<exists>st. st_run fw a ct stg n st0 = Inr st \<and> st_iteration fw a ct stg n st = Inr st'"
  by (auto split: sum.splits)

lemma st_run_prefix:
  "st_run fw a ct stg m st0 = Inr st' \<Longrightarrow> n \<le> m \<Longrightarrow> \<exists>st. st_run fw a ct stg n st0 = Inr st"
proof (induction m arbitrary: st')
  case 0
  then show ?case by simp
next
  case (Suc m)
  show ?case
  proof (cases "n = Suc m")
    case True
    then show ?thesis using Suc.prems by blast
  next
    case False
    then have "n \<le> m" using Suc.prems by simp
    moreover obtain s where "st_run fw a ct stg m st0 = Inr s"
      using st_run_Suc_Inr [OF Suc.prems(1)] by blast
    ultimately show ?thesis using Suc.IH by blast
  qed
qed


lemma st_run_invariant:
  assumes "st_run fw a ct stg n st0 = Inr st"
    and "opt_params (optimizer st0) = [Img]" and "requires_grad (img st0)"
    and "lr (optimizer st0) = 3"
  shows "opt_params (optimizer st) = [Img] \<and> requires_grad (img st) \<and>
         lr (optimizer st) = (if n \<le> 180 then 3 else 1 / 10) \<and>
         map data (cnn st) = map data (cnn st0) \<and>
         ((\<forall>c \<in> set (cnn st0). \<not> requires_grad c) \<longrightarrow> cnn st = cnn st0) \<and>
         length (filter is_backward (calls st)) = n + length (filter is_backward (calls st0))"
  using assms(1)
proof (induction n arbitrary: st)
  case 0
  then show ?case using assms(2-) by simp
next
  case (Suc n)
  from st_run_Suc_Inr [OF Suc.prems] obtain s where
    s: "st_run fw a ct stg n st0 = Inr s" and it: "st_iteration fw a ct stg n s = Inr st" by blast
  note ih = Suc.IH [OF s]
  from ih have i1: "opt_params (optimizer s) = [Img]" and i2: "requires_grad (img s)" by simp_all
  from st_iteration_Inr [OF it i1 i2] ih show ?case
    by (auto simp: Adam_def is_backward_def)
qed


lemma py_index_Inr_range:
  "py_index xs i = Inr y \<Longrightarrow> - int (length xs) \<le> i \<and> i < int (length xs)"
  by (auto simp: py_index_def split: if_splits)

lemma py_index_in_range:
  "- int (length xs) \<le> i \<Longrightarrow> i < int (length xs) \<Longrightarrow> \<exists>y. py_index xs i = Inr y"
  by (auto simp: py_index_def)

lemma style_targets_of_Inr:
  "style_targets_of fw feats ls = Inr ts \<Longrightarrow>
   list_all2 (\<lambda>idx tgt. \<exists>f. py_index feats idx = Inr f \<and> tgt = gram_matrix fw f) ls ts"
  by (induction ls arbitrary: ts) (auto split: sum.splits)

lemma st_prepare_Inr:
  assumes "st_prepare fw cnn0 a = Inr (ct, stg, st0)"
  shows "py_index (extract_features fw (preprocess_open fw (content_image a) (image_size a)) (map data cnn0))
           (content_layer a) = Inr ct"
    and "style_targets_of fw (extract_features fw (preprocess_open fw (style_image a) (style_size a)) (map data cnn0))
           (style_layers a) = Inr stg"
    and "st0 = \<lparr>img = \<lparr>data = (if init_random a
                               then uniform_like fw (preprocess_open fw (content_image a) (image_size a))
                               else preprocess_open fw (content_image a) (image_size a)),
                        requires_grad = True, grad = None\<rparr>,
                cnn = cnn0, optimizer = Adam fw [Img] 3, calls = [NewAdam [Img] 3], out = []\<rparr>"
  using assms by (auto simp: st_prepare_def Let_def initial_lr_def split: sum.splits)

lemma style_transfer_Inr:
  assumes "style_transfer fw cnn0 a = Inr final"
  shows "\<exists>ct stg st0 st. st_prepare fw cnn0 a = Inr (ct, stg, st0) \<and>
           st_run fw a ct stg 200 st0 = Inr st \<and>
           final = st\<lparr>out := out st @ [Fmt ''Iteration {}'' [199]]\<rparr>"
  using assms by (auto simp: style_transfer_def split: sum.splits)

lemma st_iteration_total:
  assumes "\<forall>x ps. length (extract_features fw x ps) = nl"
    and "- int nl \<le> content_layer a" and "content_layer a < int nl"
  shows "\<exists>st'. st_iteration fw a ct stg t st = Inr st'"
proof -
  have "\<exists>l. total_loss fw a ct stg x ps = Inr l" for x ps
    using py_index_in_range [of "extract_features fw x ps" "content_layer a"] assms
    by (auto simp: total_loss_def Let_def)
  then obtain l where "total_loss fw a ct stg
      (data (img (zero_grad (if t < 190
                 then st\<lparr>img := (img st)\<lparr>data := clamp fw (- 1.5) 1.5 (data (img st))\<rparr>,
                         calls := calls st @ [Clamp (- 1.5) 1.5]\<rparr>
                 else st))))
      (map data (cnn (zero_grad (if t < 190
                 then st\<lparr>img := (img st)\<lparr>data := clamp fw (- 1.5) 1.5 (data (img st))\<rparr>,
                         calls := calls st @ [Clamp (- 1.5) 1.5]\<rparr>
                 else st)))) = Inr l"
    by blast
  then show ?thesis
    unfolding st_iteration_def Let_def by simp
qed

lemma st_run_total:
  assumes "\<forall>x ps. length (extract_features fw x ps) = nl"
    and "- int nl \<le> content_layer a" and "content_layer a < int nl"
  shows "\<exists>st'. st_run fw a ct stg n st = Inr st'"
proof (induction n)
  case 0
  show ?case by simp
next
  case (Suc n)
  then obtain s where "st_run fw a ct stg n st = Inr s" by blast
  then show ?case using st_iteration_total [OF assms, of ct stg n s] by simp
qed

lemma style_transfer_total:
  assumes len: "\<forall>x ps. length (extract_features fw x ps) = nl"
    and prep: "st_prepare fw cnn0 a = Inr (ct, stg, st0)"
  shows "\<exists>final. style_transfer fw cnn0 a = Inr final"
proof -
  from py_index_Inr_range [OF st_prepare_Inr(1) [OF prep]] len
  have "- int nl \<le> content_layer a" "content_layer a < int nl" by simp_all
  from st_run_total [OF len this, of ct stg 200 st0] show ?thesis
    by (auto simp: style_transfer_def prep)
qed


lemma st_step_of_run:
  assumes run: "style_transfer fw cnn0 a = Inr final" and t: "t < 200"
  shows "\<exists>ct stg st0 st st'.
           st_prepare fw cnn0 a = Inr (ct, stg, st0) \<and>
           st_run fw a ct stg t st0 = Inr st \<and>
           st_iteration fw a ct stg t st = Inr st' \<and>
           st_run fw a ct stg (Suc t) st0 = Inr st'"
proof -
  from style_transfer_Inr [OF run] obtain ct stg st0 s200 where
    prep: "st_prepare fw cnn0 a = Inr (ct, stg, st0)" and r200: "st_run fw a ct stg 200 st0 = Inr s200"
    by blast
  from st_run_prefix [OF r200, of "Suc t"] t obtain st' where
    st': "st_run fw a ct stg (Suc t) st0 = Inr st'" by auto
  from st_run_Suc_Inr [OF st'] prep st' show ?thesis by blast
qed

lemma example_features_length: "\<forall>x ps. length (extract_features example_fw x ps) = 13"
  by (simp add: example_fw_def)

lemma example_prepare:
  "\<exists>ct stg st0. st_prepare example_fw (cnn_setup_cell [1, 2]) example_args = Inr (ct, stg, st0)"
  by (simp add: st_prepare_def example_fw_def example_args_def Let_def py_index_def)

lemma example_style_transfer:
  "\<exists>final. style_transfer example_fw (cnn_setup_cell [1, 2]) example_args = Inr final"
  using example_prepare style_transfer_total [OF example_features_length] by blast

subsection \<open>The loss and the step of each iteration\<close>

text \<open>
  C2. Whenever \<open>style_transfer\<close> returns, each of its 200 iterations \<open>t\<close> differentiates
  one scalar loss, the sum of exactly three terms: the content loss of the features at
  \<open>content_layer\<close> against the content target, weighted by \<open>content_weight\<close>; the style
  loss over \<open>style_layers\<close> with \<open>style_weights\<close> against the Gram matrices of the
  style image's features; and the total-variation loss of the current image with
  \<open>tv_weight\<close>. The Adam step that follows is made by an optimizer over the image alone
  and replaces the image's pixels by the Adam update with the gradient of that loss;
  the extractor's parameter values are the same after the iteration. The run makes
  exactly 200 backward passes.
\<close>

theorem style_transfer_loss_three_terms:
  assumes run: "style_transfer fw cnn0 a = Inr final" and t: "t < 200"
  shows "\<exists>content_target style_targets st0 st st' x feats f.
      st_prepare fw cnn0 a = Inr (content_target, style_targets, st0)
    \<and> py_index (extract_features fw (preprocess_open fw (content_image a) (image_size a)) (map data cnn0))
         (content_layer a) = Inr content_target
    \<and> list_all2 (\<lambda>idx tgt. \<exists>f. py_index (extract_features fw (preprocess_open fw (style_image a) (style_size a))
                                            (map data cnn0)) idx = Inr f \<and> tgt = gram_matrix fw f)
         (style_layers a) style_targets
    \<and> st_run fw a content_target style_targets t st0 = Inr st
    \<and> st_run fw a content_target style_targets (Suc t) st0 = Inr st'
    \<and> x = (if t < 190 then clamp fw (- 1.5) 1.5 (data (img st)) else data (img st))
    \<and> feats = extract_features fw x (map data (cnn st))
    \<and> py_index feats (content_layer a) = Inr f
    \<and> calls st' = calls st @ (if t < 190 then [Clamp (- 1.5) 1.5] else [])
         @ [ZeroGrad,
            Backward (content_loss fw (content_weight a) f content_target
                      + style_loss fw feats (style_layers a) style_targets (style_weights a)
                      + tv_loss fw x (tv_weight a))]
         @ (if t = 180 then [NewAdam [Img] (1 / 10)] else [])
         @ [Step (if t < 180 then 3 else 1 / 10)]
    \<and> opt_params (optimizer st') = [Img]
    \<and> data (img st') =
        fst (adam_update fw (if t < 180 then 3 else 1 / 10)
               (if t = 180 then adam_init fw else opt_state (optimizer st)) x
               (autograd fw (total_loss fw a content_target style_targets) x (map data (cnn st)) Img))
    \<and> map data (cnn st') = map data (cnn st)
    \<and> length (filter is_backward (calls final)) = 200"
proof -
  from st_step_of_run [OF run t] obtain ct stg st0 st st' where
    prep: "st_prepare fw cnn0 a = Inr (ct, stg, st0)"
    and st: "st_run fw a ct stg t st0 = Inr st"
    and it: "st_iteration fw a ct stg t st = Inr st'"
    and st': "st_run fw a ct stg (Suc t) st0 = Inr st'"
    by blast
  note p = st_prepare_Inr [OF prep]
  have i0: "opt_params (optimizer st0) = [Img]" "requires_grad (img st0)" "lr (optimizer st0) = 3"
    and c0: "filter is_backward (calls st0) = []"
    by (simp_all add: p(3) Adam_def is_backward_def)
  note inv = st_run_invariant [OF st i0]
  from inv have i1: "opt_params (optimizer st) = [Img]" and i2: "requires_grad (img st)"
    and lr: "lr (optimizer st) = (if t \<le> 180 then 3 else 1 / 10)" by simp_all
  define x where "x = (if t < 190 then clamp fw (- 1.5) 1.5 (data (img st)) else data (img st))"
  from st_iteration_Inr [OF it i1 i2] obtain loss where
    loss: "total_loss fw a ct stg x (map data (cnn st)) = Inr loss"
    and calls: "calls st' = calls st @ (if t < 190 then [Clamp (- 1.5) 1.5] else []) @ [ZeroGrad, Backward loss]
                 @ (if t = 180 then [NewAdam [Img] (1 / 10)] else [])
                 @ [Step (lr (if t = 180 then Adam fw [Img] (1 / 10) else optimizer st))]"
    and upd: "data (img st') =
        fst (adam_update fw (lr (if t = 180 then Adam fw [Img] (1 / 10) else optimizer st))
               (opt_state (if t = 180 then Adam fw [Img] (1 / 10) else optimizer st)) x
               (autograd fw (total_loss fw a ct stg) x (map data (cnn st)) Img))"
    and opt': "optimizer st' = (if t = 180 then Adam fw [Img] (1 / 10) else optimizer st)
                \<lparr>opt_state := snd (adam_update fw (lr (if t = 180 then Adam fw [Img] (1 / 10) else optimizer st))
               (opt_state (if t = 180 then Adam fw [Img] (1 / 10) else optimizer st)) x
               (autograd fw (total_loss fw a ct stg) x (map data (cnn st)) Img))\<rparr>"
    and cnn': "map data (cnn st') = map data (cnn st)"
    unfolding x_def by blast
  from total_loss_Inr [OF loss] obtain f where
    f: "py_index (extract_features fw x (map data (cnn st))) (content_layer a) = Inr f"
    and l3: "loss = content_loss fw (content_weight a) f ct
            + style_loss fw (extract_features fw x (map data (cnn st))) (style_layers a) stg (style_weights a)
            + tv_loss fw x (tv_weight a)"
    by blast
  have lr': "lr (if t = 180 then Adam fw [Img] (1 / 10) else optimizer st) = (if t < 180 then 3 else 1 / 10)"
    using lr by (simp add: Adam_def)
  have os': "opt_state (if t = 180 then Adam fw [Img] (1 / 10) else optimizer st)
             = (if t = 180 then adam_init fw else opt_state (optimizer st))"
    by (simp add: Adam_def)
  have op': "opt_params (optimizer st') = [Img]"
    using i1 by (simp add: opt' Adam_def)
  from style_transfer_Inr [OF run] prep obtain s200 where
    r200: "st_run fw a ct stg 200 st0 = Inr s200"
    and fin: "final = s200\<lparr>out := out s200 @ [Fmt ''Iteration {}'' [199]]\<rparr>" by auto
  have n200: "length (filter is_backward (calls final)) = 200"
    using st_run_invariant [OF r200 i0] by (simp add: fin c0)
  show ?thesis
    apply (rule exI [of _ ct], rule exI [of _ stg], rule exI [of _ st0], rule exI [of _ st],
        rule exI [of _ st'], rule exI [of _ x],
        rule exI [of _ "extract_features fw x (map data (cnn st))"], rule exI [of _ f])
    using prep p(1) style_targets_of_Inr [OF p(2)] st st' f cnn' n200 op'
    by (simp add: x_def [symmetric] calls l3 [symmetric] lr' upd os')
qed

theorem style_transfer_loss_three_terms_witness:
  "\<exists>final content_target style_targets st0 st st' x feats f.
      style_transfer example_fw (cnn_setup_cell [1, 2]) example_args = Inr final
    \<and> st_prepare example_fw (cnn_setup_cell [1, 2]) example_args = Inr (content_target, style_targets, st0)
    \<and> st_run example_fw example_args content_target style_targets 180 st0 = Inr st
    \<and> st_run example_fw example_args content_target style_targets 181 st0 = Inr st'
    \<and> x = clamp example_fw (- 1.5) 1.5 (data (img st))
    \<and> feats = extract_features example_fw x (map data (cnn st))
    \<and> py_index feats 3 = Inr f
    \<and> calls st' = calls st @
         [Clamp (- 1.5) 1.5, ZeroGrad,
          Backward (content_loss example_fw (6 / 100) f content_target
                    + style_loss example_fw feats [1, 4, 6, 7] style_targets [300000, 1000, 15, 3]
                    + tv_loss example_fw x (2 / 100)),
          NewAdam [Img] (1 / 10), Step (1 / 10)]
    \<and> data (img st') =
        fst (adam_update example_fw (1 / 10) (adam_init example_fw) x
               (autograd example_fw (total_loss example_fw example_args content_target style_targets) x
                  (map data (cnn st)) Img))
    \<and> length (filter is_backward (calls final)) = 200"
proof -
  obtain final where fin: "style_transfer example_fw (cnn_setup_cell [1, 2]) example_args = Inr final"
    using example_style_transfer by blast
  have t: "(180::nat) < 200" by simp
  have a: "content_layer example_args = 3" "content_weight example_args = 6 / 100"
    "style_layers example_args = [1, 4, 6, 7]" "style_weights example_args = [300000, 1000, 15, 3]"
    "tv_weight example_args = 2 / 100"
    by (simp_all add: example_args_def)
  from style_transfer_loss_three_terms [OF fin t] show ?thesis
    unfolding a using fin by (simp del: st_run.simps) blast
qed

subsection \<open>Clamping and learning-rate decay\<close>

text \<open>
  C10. Whenever \<open>style_transfer\<close> returns, iteration \<open>t\<close> of its 200 begins by clamping
  the image to \<open>[-1.5, 1.5]\<close> exactly when \<open>t < 190\<close>, and otherwise computes the loss
  on the image as it is. The optimizer is created with learning rate 3.0 and keeps it
  up to the start of iteration 180; in iteration 180, after the backward pass and before
  the step, it is replaced by a new Adam instance with learning rate 0.1, so the steps
  of iterations below 180 use 3.0 and those from 180 on use 0.1.
\<close>

theorem style_transfer_clamp_and_decay:
  assumes run: "style_transfer fw cnn0 a = Inr final" and t: "t < 200"
  shows "\<exists>content_target style_targets st0 st st' x g loss.
      st_prepare fw cnn0 a = Inr (content_target, style_targets, st0)
    \<and> optimizer st0 = Adam fw [Img] 3
    \<and> st_run fw a content_target style_targets t st0 = Inr st
    \<and> st_run fw a content_target style_targets (Suc t) st0 = Inr st'
    \<and> lr (optimizer st) = (if t \<le> 180 then 3 else 1 / 10)
    \<and> x = (if t < 190 then clamp fw (- 1.5) 1.5 (data (img st)) else data (img st))
    \<and> total_loss fw a content_target style_targets x (map data (cnn st)) = Inr loss
    \<and> g = autograd fw (total_loss fw a content_target style_targets) x (map data (cnn st)) Img
    \<and> calls st' = calls st @ (if t < 190 then [Clamp (- 1.5) 1.5] else [])
         @ [ZeroGrad, Backward loss]
         @ (if t = 180 then [NewAdam [Img] (1 / 10)] else [])
         @ [Step (if t < 180 then 3 else 1 / 10)]
    \<and> optimizer st' =
        (if t = 180
         then (Adam fw [Img] (1 / 10))\<lparr>opt_state := snd (adam_update fw (1 / 10) (adam_init fw) x g)\<rparr>
         else (optimizer st)\<lparr>opt_state := snd (adam_update fw (lr (optimizer st)) (opt_state (optimizer st)) x g)\<rparr>)"
proof -
  from st_step_of_run [OF run t] obtain ct stg st0 st st' where
    prep: "st_prepare fw cnn0 a = Inr (ct, stg, st0)"
    and st: "st_run fw a ct stg t st0 = Inr st"
    and it: "st_iteration fw a ct stg t st = Inr st'"
    and st': "st_run fw a ct stg (Suc t) st0 = Inr st'"
    by blast
  note p = st_prepare_Inr [OF prep]
  have o0: "optimizer st0 = Adam fw [Img] 3" by (simp add: p(3))
  have i0: "opt_params (optimizer st0) = [Img]" "requires_grad (img st0)" "lr (optimizer st0) = 3"
    by (simp_all add: p(3) Adam_def)
  note inv = st_run_invariant [OF st i0]
  from inv have i1: "opt_params (optimizer st) = [Img]" and i2: "requires_grad (img st)"
    and lr: "lr (optimizer st) = (if t \<le> 180 then 3 else 1 / 10)" by simp_all
  define x where "x = (if t < 190 then clamp fw (- 1.5) 1.5 (data (img st)) else data (img st))"
  define g where "g = autograd fw (total_loss fw a ct stg) x (map data (cnn st)) Img"
  from st_iteration_Inr [OF it i1 i2] obtain loss where
    loss: "total_loss fw a ct stg x (map data (cnn st)) = Inr loss"
    and calls: "calls st' = calls st @ (if t < 190 then [Clamp (- 1.5) 1.5] else []) @ [ZeroGrad, Backward loss]
                 @ (if t = 180 then [NewAdam [Img] (1 / 10)] else [])
                 @ [Step (lr (if t = 180 then Adam fw [Img] (1 / 10) else optimizer st))]"
    and opt': "optimizer st' = (if t = 180 then Adam fw [Img] (1 / 10) else optimizer st)
                \<lparr>opt_state := snd (adam_update fw (lr (if t = 180 then Adam fw [Img] (1 / 10) else optimizer st))
               (opt_state (if t = 180 then Adam fw [Img] (1 / 10) else optimizer st)) x g)\<rparr>"
    unfolding x_def g_def by blast
  have lr': "lr (if t = 180 then Adam fw [Img] (1 / 10) else optimizer st) = (if t < 180 then 3 else 1 / 10)"
    using lr by (simp add: Adam_def)
  have opt'': "optimizer st' =
        (if t = 180
         then (Adam fw [Img] (1 / 10))\<lparr>opt_state := snd (adam_update fw (1 / 10) (adam_init fw) x g)\<rparr>
         else (optimizer st)\<lparr>opt_state := snd (adam_update fw (lr (optimizer st)) (opt_state (optimizer st)) x g)\<rparr>)"
    by (simp add: opt' Adam_def)
  show ?thesis
    apply (rule exI [of _ ct], rule exI [of _ stg], rule exI [of _ st0], rule exI [of _ st],
        rule exI [of _ st'], rule exI [of _ x], rule exI [of _ g], rule exI [of _ loss])
    using prep o0 st st' lr loss opt''
    by (simp add: x_def [symmetric] g_def [symmetric] calls lr')
qed

theorem style_transfer_clamp_and_decay_witness:
  "\<exists>final content_target style_targets st0 st189 st190 st191 loss189 loss190.
      style_transfer example_fw (cnn_setup_cell [1, 2]) example_args = Inr final
    \<and> st_prepare example_fw (cnn_setup_cell [1, 2]) example_args = Inr (content_target, style_targets, st0)
    \<and> st_run example_fw example_args content_target style_targets 189 st0 = Inr st189
    \<and> st_run example_fw example_args content_target style_targets 190 st0 = Inr st190
    \<and> st_run example_fw example_args content_target style_targets 191 st0 = Inr st191
    \<and> calls st190 = calls st189 @ [Clamp (- 1.5) 1.5, ZeroGrad, Backward loss189, Step (1 / 10)]
    \<and> calls st191 = calls st190 @ [ZeroGrad, Backward loss190, Step (1 / 10)]"
proof -
  obtain final where fin: "style_transfer example_fw (cnn_setup_cell [1, 2]) example_args = Inr final"
    using example_style_transfer by blast
  have t: "(189::nat) < 200" "(190::nat) < 200" by simp_all
  from style_transfer_clamp_and_decay [OF fin t(1)] style_transfer_clamp_and_decay [OF fin t(2)]
  show ?thesis
    using fin by (simp del: st_run.simps) (metis Pair_inject sum.inject(2))
qed

subsection \<open>Setup cells\<close>

text \<open>
  C3. The setup cell of the style-transfer notebook raises AssertionError, with the
  message \<open>[!] Choose path to style-transfer-checks.npz\<close>, exactly when \<open>CHECKS_PATH\<close>
  is \<open>None\<close>, and then \<open>np.load\<close> has been called on no file; with a path, the only
  exception it can end in is the one \<open>np.load\<close> raises, passed on as it is. The setup
  cell of the network-visualization notebook raises AssertionError exactly when
  \<open>SAVE_PATH\<close> is \<open>None\<close>; with a path it raises ValueError, with the message
  \<open>You need to download SqueezeNet!\<close>, exactly when \<open>SAVE_PATH + ".index"\<close> does not
  exist, and otherwise ends in whatever \<open>load_weights\<close> raises, or in the loaded model
  with \<open>trainable = False\<close>.
\<close>

theorem setup_cells_errors:
  "(snd (style_setup_cell np_load p) = Inl (AssertionError ''[!] Choose path to style-transfer-checks.npz'')
      \<longleftrightarrow> p = None)
   \<and> ((\<exists>m. snd (style_setup_cell np_load p) = Inl (AssertionError m)) \<longleftrightarrow> p = None)
   \<and> fst (style_setup_cell np_load None) = []
   \<and> style_setup_cell np_load (Some q) =
       ([q], case np_load q of
               Inl m \<Rightarrow> Inl (FrameworkError m)
             | Inr answers \<Rightarrow> Inr (str_replace ''style-transfer-checks.npz'' ''styles'' q, answers))
   \<and> ((\<exists>m. netvis_setup_cell path_exists net load_weights sp = Inl (AssertionError m)) \<longleftrightarrow> sp = None)
   \<and> netvis_setup_cell path_exists net load_weights None = Inl (AssertionError ''[!] Choose path to squeezenet.ckpt'')
   \<and> (netvis_setup_cell path_exists net load_weights (Some q) = Inl (ValueError ''You need to download SqueezeNet!'')
        \<longleftrightarrow> \<not> path_exists (q @ ''.index''))
   \<and> ((\<exists>m. netvis_setup_cell path_exists net load_weights sp = Inl (ValueError m))
        \<longleftrightarrow> (\<exists>q. sp = Some q \<and> \<not> path_exists (q @ ''.index'')))
   \<and> netvis_setup_cell path_exists net load_weights (Some q) =
       (if path_exists (q @ ''.index'')
        then (case load_weights net q of
                Inl m \<Rightarrow> Inl (FrameworkError m)
              | Inr loaded \<Rightarrow> Inr (loaded\<lparr>trainable := False\<rparr>))
        else Inl (ValueError ''You need to download SqueezeNet!''))"
  by (auto simp: style_setup_cell_def netvis_setup_cell_def Let_def split: option.splits sum.splits)

lemma style_setup_cell_example:
  "style_setup_cell (\<lambda>p. if p = ''a3/style-transfer-checks.npz'' then Inr (0::nat) else Inl ''No such file'')
     (Some ''a3/style-transfer-checks.npz'') = ([''a3/style-transfer-checks.npz''], Inr (''a3/styles'', 0))"
  by (simp add: style_setup_cell_def str_replace.simps)

subsection \<open>The fooling-image check\<close>

lemma argmax_Some:
  assumes "argmax s = Some k"
  shows "k < length s \<and> (\<forall>j < length s. s ! j \<le> s ! k) \<and> (\<forall>j < k. s ! j < s ! k)"
proof -
  from assms have ne: "s \<noteq> []" by (auto simp: argmax_def split: if_splits)
  define M where "M = Max (set s)"
  have k: "k = length (takeWhile (\<lambda>y. y \<noteq> M) s)"
    using assms ne by (simp add: argmax_def M_def)
  have Min: "M \<in> set s" unfolding M_def using ne by (intro Max_in) simp_all
  have ub: "y \<le> M" if "y \<in> set s" for y unfolding M_def using that by (intro Max_ge) simp_all
  have "takeWhile (\<lambda>y. y \<noteq> M) s \<noteq> s"
    using Min by (auto simp: takeWhile_eq_all_conv)
  then have "k \<noteq> length s"
    unfolding k using takeWhile_eq_take [of "\<lambda>y. y \<noteq> M" s] by auto
  then have klt: "k < length s"
    unfolding k using length_takeWhile_le [of "\<lambda>y. y \<noteq> M" s] by simp
  have sk: "s ! k = M"
    using nth_length_takeWhile [of "\<lambda>y. y \<noteq> M" s] klt unfolding k by auto
  have before: "s ! j \<noteq> M" if "j < k" for j
  proof -
    have "takeWhile (\<lambda>y. y \<noteq> M) s ! j \<in> set (takeWhile (\<lambda>y. y \<noteq> M) s)"
      using that unfolding k by (intro nth_mem)
    then have "takeWhile (\<lambda>y. y \<noteq> M) s ! j \<noteq> M" by (auto dest: set_takeWhileD)
    then show ?thesis using takeWhile_nth [of j "\<lambda>y. y \<noteq> M" s] that unfolding k by simp
  qed
  have "s ! j < M" if "j < k" for j
    using before [OF that] ub [of "s ! j"] that klt by (simp add: order_less_le)
  then show ?thesis using klt sk ub by simp
qed


lemma fooling_check_predict:
  "fooling_check mfi apply_model m (x # images) 0 target_y =
     (case predict apply_model m (mfi [x] target_y m) of
        Inl e \<Rightarrow> Inl e
      | Inr k \<Rightarrow> if k = target_y then Inr (mfi [x] target_y m)
                else Inl (AssertionError ''The network is not fooled!''))"
  by (simp add: fooling_check_def predict_def py_index_def Let_def split: sum.splits option.splits)

lemma predict_Inl: "predict apply_model m images = Inl e \<Longrightarrow> e = IndexError \<or> e = FrameworkError ''argmax of an empty tensor''"
  by (auto simp: predict_def py_index_def split: sum.splits option.splits if_splits)

lemma predict_Inr:
  assumes "predict apply_model m images = Inr k"
  shows "\<exists>s rest. apply_model m images = s # rest \<and> 0 \<le> k \<and> nat k < length s
           \<and> (\<forall>j < length s. s ! j \<le> s ! nat k) \<and> (\<forall>j < nat k. s ! j < s ! nat k)"
proof -
  from assms obtain s n where s: "py_index (apply_model m images) 0 = Inr s"
    and a: "argmax s = Some n" and k: "k = int n"
    by (auto simp: predict_def split: sum.splits option.splits)
  from s obtain rest where "apply_model m images = s # rest"
    by (cases "apply_model m images") (auto simp: py_index_def)
  with argmax_Some [OF a] k show ?thesis by auto
qed

lemma make_fooling_image_Some:
  assumes ret: "make_fooling_image ascent apply_model X0 target_y m = Some r"
  shows "\<exists>n. (case r of
                Inr X_fooling \<Rightarrow> X_fooling = ((\<lambda>Y. ascent Y target_y m) ^^ n) X0
                                 \<and> predict apply_model m X_fooling = Inr target_y
              | Inl e \<Rightarrow> predict apply_model m (((\<lambda>Y. ascent Y target_y m) ^^ n) X0) = Inl e)"
proof -
  let ?Q = "\<lambda>asc am Y ty md res. \<exists>n. (case res of
                Inr X_fooling \<Rightarrow> X_fooling = ((\<lambda>Z. asc Z ty md) ^^ n) Y
                                 \<and> predict am md X_fooling = Inr ty
              | Inl e \<Rightarrow> predict am md (((\<lambda>Z. asc Z ty md) ^^ n) Y) = Inl e)"
  have "?Q ascent apply_model X0 target_y m r"
  proof (rule make_fooling_image.raw_induct [where P = ?Q, OF _ ret])
    fix rec asc am Y ty md res
    assume ih: "\<And>a b c d e y. rec a b c d e = Some y \<Longrightarrow> ?Q a b c d e y"
      and eq: "(if predict am md Y = Inr ty then Some (Inr Y)
                else if isl (predict am md Y) then Some (Inl (projl (predict am md Y)))
                else rec asc am (asc Y ty md) ty md) = Some res"
    define f where "f = (\<lambda>Z. asc Z ty md)"
    show "?Q asc am Y ty md res"
    proof (cases "predict am md Y = Inr ty")
      case True
      with eq have "res = Inr Y" by simp
      with True show ?thesis by (intro exI [of _ 0]) simp
    next
      case nt: False
      show ?thesis
      proof (cases "isl (predict am md Y)")
        case True
        with nt eq have r: "res = Inl (projl (predict am md Y))" by simp
        from True have "predict am md Y = Inl (projl (predict am md Y))" by simp
        with r show ?thesis by (intro exI [of _ 0]) simp
      next
        case False
        with nt eq have "rec asc am (asc Y ty md) ty md = Some res" by simp
        from ih [OF this] obtain n where n: "case res of
                Inr X_fooling \<Rightarrow> X_fooling = (f ^^ n) (f Y) \<and> predict am md X_fooling = Inr ty
              | Inl e \<Rightarrow> predict am md ((f ^^ n) (f Y)) = Inl e"
          unfolding f_def by blast
        have "(f ^^ Suc n) Y = (f ^^ n) (f Y)" by (simp add: funpow_swap1)
        with n have "case res of
                Inr X_fooling \<Rightarrow> X_fooling = (f ^^ Suc n) Y \<and> predict am md X_fooling = Inr ty
              | Inl e \<Rightarrow> predict am md ((f ^^ Suc n) Y) = Inl e"
          by (simp split: sum.splits)
        then show ?thesis unfolding f_def by (rule exI)
      qed
    qed
  qed
  then show ?thesis .
qed

lemma make_fooling_image_returns:
  assumes "predict apply_model m (((\<lambda>Y. ascent Y target_y m) ^^ n) X0) = Inr target_y"
    and "\<forall>k < n. \<not> isl (predict apply_model m (((\<lambda>Y. ascent Y target_y m) ^^ k) X0))"
  shows "\<exists>k \<le> n. make_fooling_image ascent apply_model X0 target_y m
            = Some (Inr (((\<lambda>Y. ascent Y target_y m) ^^ k) X0))"
proof -
  define f where "f = (\<lambda>Y. ascent Y target_y m)"
  have unf: "make_fooling_image ascent apply_model Y target_y m =
     (if predict apply_model m Y = Inr target_y then Some (Inr Y)
      else if isl (predict apply_model m Y) then Some (Inl (projl (predict apply_model m Y)))
      else make_fooling_image ascent apply_model (f Y) target_y m)" for Y
    unfolding f_def by (rule make_fooling_image.simps)
  have "predict apply_model m ((f ^^ n) X0) = Inr target_y \<Longrightarrow>
        \<forall>k < n. \<not> isl (predict apply_model m ((f ^^ k) X0)) \<Longrightarrow>
        \<exists>k \<le> n. make_fooling_image ascent apply_model X0 target_y m = Some (Inr ((f ^^ k) X0))"
  proof (induction n arbitrary: X0)
    case 0
    then show ?case by (subst unf) simp
  next
    case (Suc n)
    show ?case
    proof (cases "predict apply_model m X0 = Inr target_y")
      case True
      then have "make_fooling_image ascent apply_model X0 target_y m = Some (Inr ((f ^^ 0) X0))"
        by (subst unf) simp
      then show ?thesis by blast
    next
      case False
      from Suc.prems(2) have ok: "\<not> isl (predict apply_model m ((f ^^ 0) X0))" by blast
      have sw: "(f ^^ Suc k) X0 = (f ^^ k) (f X0)" for k by (simp add: funpow_swap1)
      have a: "predict apply_model m ((f ^^ n) (f X0)) = Inr target_y"
        using Suc.prems(1) unfolding sw .
      have b: "\<forall>k < n. \<not> isl (predict apply_model m ((f ^^ k) (f X0)))"
      proof (intro allI impI)
        fix k assume "k < n"
        then have "Suc k < Suc n" by simp
        with Suc.prems(2) have "\<not> isl (predict apply_model m ((f ^^ Suc k) X0))" by blast
        then show "\<not> isl (predict apply_model m ((f ^^ k) (f X0)))" unfolding sw .
      qed
      from Suc.IH [OF a b] obtain k where k: "k \<le> n"
        and r: "make_fooling_image ascent apply_model (f X0) target_y m = Some (Inr ((f ^^ k) (f X0)))"
        by blast
      have "make_fooling_image ascent apply_model X0 target_y m = Some (Inr ((f ^^ Suc k) X0))"
        using False ok r unfolding sw by (subst unf) simp
      with k show ?thesis by (intro exI [of _ "Suc k"]) simp
    qed
  qed
  then show ?thesis using assms unfolding f_def by blast
qed

text \<open>
  C5. The notebook's check raises AssertionError \<open>The network is not fooled!\<close> exactly
  when the argmax of the model's score vector on the image \<open>make_fooling_image\<close> returned
  differs from \<open>target_y = 6\<close>, whatever function \<open>make_fooling_image\<close> is. For the
  \<open>make_fooling_image\<close> of the spec, gradient ascent that stops when the network
  classifies the image as the target: the image it returns is classified by the model
  as the target class, class 6 having the largest score, strictly larger than every
  class before it; the image is reached from \<open>Xi\<close> by ascent steps; it is returned
  whenever some number of steps reaches an image classified as the target; and the
  cell's assertion never fails on it.
\<close>

theorem fooling_image_classified:
  "(fooling_cell mfi apply_model m (x # images) = Inl (AssertionError ''The network is not fooled!'')
      \<longleftrightarrow> (\<exists>k. predict apply_model m (mfi [x] 6 m) = Inr k \<and> k \<noteq> 6))
   \<and> (fooling_cell mfi apply_model m (x # images) = Inr (mfi [x] 6 m)
      \<longleftrightarrow> predict apply_model m (mfi [x] 6 m) = Inr 6)
   \<and> (make_fooling_image ascent apply_model [x] 6 m = Some (Inr X_fooling) \<longrightarrow>
         predict apply_model m X_fooling = Inr 6
       \<and> (\<exists>s rest. apply_model m X_fooling = s # rest \<and> 6 < length s
             \<and> (\<forall>j < length s. s ! j \<le> s ! 6) \<and> (\<forall>j < 6. s ! j < s ! 6))
       \<and> (\<exists>n. X_fooling = ((\<lambda>Y. ascent Y 6 m) ^^ n) [x])
       \<and> fooling_cell_modelled ascent apply_model m (x # images) = Some (Inr X_fooling))
   \<and> (predict apply_model m (((\<lambda>Y. ascent Y 6 m) ^^ n) [x]) = Inr 6
       \<and> (\<forall>k < n. \<not> isl (predict apply_model m (((\<lambda>Y. ascent Y 6 m) ^^ k) [x]))) \<longrightarrow>
         (\<exists>X_fooling. make_fooling_image ascent apply_model [x] 6 m = Some (Inr X_fooling)
            \<and> fooling_cell_modelled ascent apply_model m (x # images) = Some (Inr X_fooling)))
   \<and> fooling_cell_modelled ascent apply_model m (x # images)
        \<noteq> Some (Inl (AssertionError ''The network is not fooled!''))"
proof -
  have cell: "fooling_cell f apply_model m (x # images) =
     (case predict apply_model m (f [x] 6 m) of
        Inl e \<Rightarrow> Inl e
      | Inr k \<Rightarrow> if k = 6 then Inr (f [x] 6 m)
                else Inl (AssertionError ''The network is not fooled!''))" for f
    unfolding fooling_cell_def by (rule fooling_check_predict)
  have noassert: "predict apply_model m Y \<noteq> Inl (AssertionError ''The network is not fooled!'')" for Y
    using predict_Inl [of apply_model m Y] by auto
  have 1: "fooling_cell mfi apply_model m (x # images) = Inl (AssertionError ''The network is not fooled!'')
      \<longleftrightarrow> (\<exists>k. predict apply_model m (mfi [x] 6 m) = Inr k \<and> k \<noteq> 6)"
    using noassert [of "mfi [x] 6 m"] by (auto simp: cell split: sum.splits)
  have 2: "fooling_cell mfi apply_model m (x # images) = Inr (mfi [x] 6 m)
      \<longleftrightarrow> predict apply_model m (mfi [x] 6 m) = Inr 6"
    by (auto simp: cell split: sum.splits)
  have idx: "py_index (x # images) 0 = Inr x" by (simp add: py_index_def)
  have modelled: "fooling_cell_modelled ascent apply_model m (x # images) = Some (Inr Xf)"
    and pr: "predict apply_model m Xf = Inr 6"
    and it: "\<exists>n. Xf = ((\<lambda>Y. ascent Y 6 m) ^^ n) [x]"
    if ret: "make_fooling_image ascent apply_model [x] 6 m = Some (Inr Xf)" for Xf
  proof -
    from make_fooling_image_Some [OF ret] show pr: "predict apply_model m Xf = Inr 6"
      and "\<exists>n. Xf = ((\<lambda>Y. ascent Y 6 m) ^^ n) [x]" by auto
    then show "fooling_cell_modelled ascent apply_model m (x # images) = Some (Inr Xf)"
      by (simp add: fooling_cell_modelled_def idx ret cell)
  qed
  have 3: "make_fooling_image ascent apply_model [x] 6 m = Some (Inr X_fooling) \<longrightarrow>
         predict apply_model m X_fooling = Inr 6
       \<and> (\<exists>s rest. apply_model m X_fooling = s # rest \<and> 6 < length s
             \<and> (\<forall>j < length s. s ! j \<le> s ! 6) \<and> (\<forall>j < 6. s ! j < s ! 6))
       \<and> (\<exists>n. X_fooling = ((\<lambda>Y. ascent Y 6 m) ^^ n) [x])
       \<and> fooling_cell_modelled ascent apply_model m (x # images) = Some (Inr X_fooling)"
  proof
    assume ret: "make_fooling_image ascent apply_model [x] 6 m = Some (Inr X_fooling)"
    from predict_Inr [OF pr [OF ret]]
    have "\<exists>s rest. apply_model m X_fooling = s # rest \<and> 6 < length s
             \<and> (\<forall>j < length s. s ! j \<le> s ! 6) \<and> (\<forall>j < 6. s ! j < s ! 6)"
      by simp
    with pr [OF ret] it [OF ret] modelled [OF ret] show "predict apply_model m X_fooling = Inr 6
       \<and> (\<exists>s rest. apply_model m X_fooling = s # rest \<and> 6 < length s
             \<and> (\<forall>j < length s. s ! j \<le> s ! 6) \<and> (\<forall>j < 6. s ! j < s ! 6))
       \<and> (\<exists>n. X_fooling = ((\<lambda>Y. ascent Y 6 m) ^^ n) [x])
       \<and> fooling_cell_modelled ascent apply_model m (x # images) = Some (Inr X_fooling)"
      by blast
  qed
  have 4: "predict apply_model m (((\<lambda>Y. ascent Y 6 m) ^^ n) [x]) = Inr 6
       \<and> (\<forall>k < n. \<not> isl (predict apply_model m (((\<lambda>Y. ascent Y 6 m) ^^ k) [x]))) \<longrightarrow>
         (\<exists>X_fooling. make_fooling_image ascent apply_model [x] 6 m = Some (Inr X_fooling)
            \<and> fooling_cell_modelled ascent apply_model m (x # images) = Some (Inr X_fooling))"
  proof
    assume a: "predict apply_model m (((\<lambda>Y. ascent Y 6 m) ^^ n) [x]) = Inr 6
       \<and> (\<forall>k < n. \<not> isl (predict apply_model m (((\<lambda>Y. ascent Y 6 m) ^^ k) [x])))"
    from make_fooling_image_returns [where apply_model = apply_model and m = m and ascent = ascent
        and target_y = 6 and n = n and ?X0.0 = "[x]"] a
    obtain Xf where ret: "make_fooling_image ascent apply_model [x] 6 m = Some (Inr Xf)" by blast
    with modelled [OF ret] show "\<exists>X_fooling. make_fooling_image ascent apply_model [x] 6 m = Some (Inr X_fooling)
            \<and> fooling_cell_modelled ascent apply_model m (x # images) = Some (Inr X_fooling)"
      by blast
  qed
  have 5: "fooling_cell_modelled ascent apply_model m (x # images)
        \<noteq> Some (Inl (AssertionError ''The network is not fooled!''))"
  proof (cases "make_fooling_image ascent apply_model [x] 6 m")
    case None
    then show ?thesis by (simp add: fooling_cell_modelled_def idx)
  next
    case (Some r)
    show ?thesis
    proof (cases r)
      case (Inl e)
      from make_fooling_image_Some [OF Some] Inl obtain k where
        "predict apply_model m (((\<lambda>Y. ascent Y 6 m) ^^ k) [x]) = Inl e" by auto
      with noassert have "e \<noteq> AssertionError ''The network is not fooled!''" by metis
      then show ?thesis by (simp add: fooling_cell_modelled_def idx Some Inl)
    next
      case (Inr Xf)
      with Some modelled [of Xf] show ?thesis by simp
    qed
  qed
  from 1 2 3 4 5 show ?thesis by (intro conjI)
qed

theorem fooling_image_classified_witness:
  "make_fooling_image (\<lambda>Xi t m. map (\<lambda>v. v + 5) Xi) (\<lambda>m xs. map (\<lambda>v. [0, 1, 2, 3, 4, 5, v, 7 - v :: int]) xs)
      [1 :: int] 6 \<lparr>weights = 10 :: int, trainable = False\<rparr> = Some (Inr [6])
   \<and> predict (\<lambda>m xs. map (\<lambda>v. [0, 1, 2, 3, 4, 5, v, 7 - v :: int]) xs)
        \<lparr>weights = 10 :: int, trainable = False\<rparr> [1 :: int] = Inr 7
   \<and> predict (\<lambda>m xs. map (\<lambda>v. [0, 1, 2, 3, 4, 5, v, 7 - v :: int]) xs)
        \<lparr>weights = 10 :: int, trainable = False\<rparr> [6 :: int] = Inr 6
   \<and> fooling_cell_modelled (\<lambda>Xi t m. map (\<lambda>v. v + 5) Xi)
        (\<lambda>m xs. map (\<lambda>v. [0, 1, 2, 3, 4, 5, v, 7 - v :: int]) xs)
        \<lparr>weights = 10 :: int, trainable = False\<rparr> [1 :: int, 2] = Some (Inr [6])
   \<and> (\<exists>X_fooling.
        make_fooling_image (\<lambda>Xi t m. map (\<lambda>v. v + 8) Xi)
          (\<lambda>m xs. map (\<lambda>v. [0, 1, 2, 3, 4, 5, v, 7 - v :: int]) xs)
          [- 10 :: int] 6 \<lparr>weights = 10 :: int, trainable = False\<rparr> = Some (Inr X_fooling)
      \<and> fooling_cell_modelled (\<lambda>Xi t m. map (\<lambda>v. v + 8) Xi)
          (\<lambda>m xs. map (\<lambda>v. [0, 1, 2, 3, 4, 5, v, 7 - v :: int]) xs)
          \<lparr>weights = 10 :: int, trainable = False\<rparr> [- 10 :: int] = Some (Inr X_fooling))"
proof -
  define am :: "int keras_model \<Rightarrow> int list \<Rightarrow> int list list"
    where "am = (\<lambda>m xs. map (\<lambda>v. [0, 1, 2, 3, 4, 5, v, 7 - v]) xs)"
  define md :: "int keras_model" where "md = \<lparr>weights = 10 :: int, trainable = False\<rparr>"
  define asc :: "int list \<Rightarrow> int \<Rightarrow> int keras_model \<Rightarrow> int list"
    where "asc = (\<lambda>Xi t m. map (\<lambda>v. v + 5) Xi)"
  define asc8 :: "int list \<Rightarrow> int \<Rightarrow> int keras_model \<Rightarrow> int list"
    where "asc8 = (\<lambda>Xi t m. map (\<lambda>v. v + 8) Xi)"
  have p1: "predict am md [1] = Inr 7" and p6: "predict am md [6] = Inr 6"
    by (simp_all add: predict_def py_index_def argmax_def am_def)
  have s: "asc [1] 6 md = [6]" by (simp add: asc_def)
  have ret: "make_fooling_image asc am [1] 6 md = Some (Inr [6])"
    by (subst make_fooling_image.simps, simp add: p1 s, subst make_fooling_image.simps, simp add: p6)
  note t = fooling_image_classified [where ascent = asc and apply_model = am and m = md and x = 1
      and X_fooling = "[6]" and images = "[2]", THEN conjunct2, THEN conjunct2, THEN conjunct1, rule_format, OF ret]
  from t have c: "fooling_cell_modelled asc am md [1, 2] = Some (Inr [6])" by blast
  have q: "predict am md (((\<lambda>Y. asc8 Y 6 md) ^^ 2) [- 10]) = Inr 6
       \<and> (\<forall>k < 2. \<not> isl (predict am md (((\<lambda>Y. asc8 Y 6 md) ^^ k) [- 10])))"
    by (simp add: predict_def py_index_def argmax_def am_def asc8_def numeral_2_eq_2 less_Suc_eq)
  note u = fooling_image_classified [where ascent = asc8 and apply_model = am and m = md and x = "- 10"
      and n = 2 and images = "[]", THEN conjunct2, THEN conjunct2, THEN conjunct2, THEN conjunct1,
      rule_format, OF q]
  from ret p1 p6 c u show ?thesis unfolding am_def md_def asc_def asc8_def by (intro conjI)
qed

subsection \<open>\<open>test_sample_noise\<close>\<close>

text \<open>
  C7. \<open>test_sample_noise\<close> runs to its end, printing \<open>All tests passed!\<close>, exactly when
  the first call \<open>sample_noise(3, 4)\<close> returns a \<open>tf.Tensor\<close> of shape \<open>[3, 4]\<close>, the two
  further calls return arrays \<open>z1\<close> and \<open>z2\<close> that \<open>np.array_equal\<close> tells apart, and
  every entry of the sampled noise \<open>z1\<close>, the array the range check is made on, lies in
  \<open>[-1, 1]\<close>.
\<close>

theorem test_sample_noise_passes_iff:
  "(test_sample_noise sample_noise g0 = Inr ''All tests passed!'' \<longleftrightarrow>
     kind (fst (sample_noise g0 3 4)) = TfTensor
     \<and> shape (fst (sample_noise g0 3 4)) = [3, 4]
     \<and> \<not> array_equal (fst (sample_noise (snd (sample_noise g0 3 4)) 3 4))
                      (fst (sample_noise (snd (sample_noise (snd (sample_noise g0 3 4)) 3 4)) 3 4))
     \<and> list_all (\<lambda>v. - 1 \<le> v \<and> v \<le> 1) (entries (fst (sample_noise (snd (sample_noise g0 3 4)) 3 4))))
   \<and> ((\<exists>r. test_sample_noise sample_noise g0 = Inr r) \<longleftrightarrow>
        test_sample_noise sample_noise g0 = Inr ''All tests passed!'')"
proof -
  obtain z g1 where r0: "sample_noise g0 3 4 = (z, g1)" by (cases "sample_noise g0 3 4")
  obtain z1 g2 where r1: "sample_noise g1 3 4 = (z1, g2)" by (cases "sample_noise g1 3 4")
  obtain z2 g3 where r2: "sample_noise g2 3 4 = (z2, g3)" by (cases "sample_noise g2 3 4")
  have range: "list_all (\<lambda>v. - 1 \<le> v \<and> v \<le> 1) (entries z1)
      \<longleftrightarrow> list_all (\<lambda>v. - 1 \<le> v) (entries z1) \<and> list_all (\<lambda>v. v \<le> 1) (entries z1)"
    by (auto simp: list_all_iff)
  have t: "test_sample_noise sample_noise g0 =
     (if kind z = NdArray then Inl (AttributeError ''get_shape'')
         else if shape z \<noteq> [3, 4] then Inl (AssertionError [])
         else if kind z \<noteq> TfTensor then Inl (AssertionError [])
         else if array_equal z1 z2 then Inl (AssertionError [])
         else if \<not> (list_all (\<lambda>v. - 1 \<le> v) (entries z1) \<and> list_all (\<lambda>v. v \<le> 1) (entries z1))
               then Inl (AssertionError [])
               else Inr ''All tests passed!'')"
    by (simp add: test_sample_noise_def Let_def r0 r1 r2)
  show ?thesis
    unfolding t r0 r1 r2 fst_conv snd_conv range
    by (cases "kind z") simp_all
qed

lemma test_sample_noise_example:
  "test_sample_noise
     (\<lambda>g b d. (\<lparr>kind = TfTensor, shape = [b, d], entries = replicate (b * d) (if even g then 1 / 2 else - 1)\<rparr>,
                Suc g))
     (0::nat) = Inr ''All tests passed!''
   \<and> test_sample_noise
     (\<lambda>g b d. (\<lparr>kind = NdArray, shape = [b, d], entries = replicate (b * d) (if even g then 1 / 2 else - 1)\<rparr>,
                Suc g))
     (0::nat) = Inl (AttributeError ''get_shape'')
   \<and> test_sample_noise
     (\<lambda>g b d. (\<lparr>kind = TfTensor, shape = [b, d], entries = replicate (b * d) (1 / 2)\<rparr>, Suc g))
     (0::nat) = Inl (AssertionError [])"
  by (simp add: test_sample_noise_def array_equal_def Let_def list_all_iff)

subsection \<open>The numeric checks\<close>

lemma py_index_Inl: "py_index xs i = Inl e \<Longrightarrow> e = IndexError"
  by (auto simp: py_index_def split: if_splits)

lemma checked_style_targets_Inl: "checked_style_targets ck feats ls = Inl e \<Longrightarrow> e = IndexError"
  by (induction ls) (auto split: sum.splits dest: py_index_Inl)

lemma cpu_data_numpy_Inl: "cpu_data_numpy r = Inl e \<Longrightarrow> r = NoTensor \<and> e = AttributeError ''cpu''"
  by (auto simp: cpu_data_numpy_def split: returned.splits)

lemma checks_raise:
  "content_loss_test fw ck folder ps correct = Inl e \<Longrightarrow>
     e = IndexError \<or> e = AttributeError ''cpu'' \<or> (\<exists>v. rel_error ck correct v = Inl e)"
  "gram_matrix_test fw ck folder ps correct = Inl e \<Longrightarrow>
     e = IndexError \<or> e = AttributeError ''cpu'' \<or> (\<exists>v. rel_error ck correct v = Inl e)"
  "style_loss_test fw ck folder ps correct = Inl e \<Longrightarrow>
     e = IndexError \<or> e = AttributeError ''cpu'' \<or> (\<exists>v. rel_error ck correct v = Inl e)"
  "tv_loss_test fw ck folder correct = Inl e \<Longrightarrow>
     e = AttributeError ''cpu'' \<or> (\<exists>v. rel_error ck correct v = Inl e)"
  by (auto simp: content_loss_test_def gram_matrix_test_def style_loss_test_def tv_loss_test_def Let_def
      simp del: checked_style_targets.simps
      split: sum.splits prod.splits
      dest: py_index_Inl checked_style_targets_Inl cpu_data_numpy_Inl)

lemma search_for_in_examples:
  "search_for_in ''    for i in range(H):''"
  "search_for_in ''    return sum(d for d in ds)''"
  "\<not> search_for_in ''    w_variance = torch.sum((img[:, :, :, 1:] - img[:, :, :, :-1]) ** 2)''"
  "\<not> search_for_in ''    # loop-free: sum over the row for all columns''"
  "search_for_in ''for  in''"
  "\<not> search_for_in [CHR ''f'', CHR ''o'', CHR ''r'', CHR '' '', CHR 0xA0, CHR '' '', CHR ''i'', CHR ''n'']"
  by (simp_all add: is_space_def)


text \<open>
  C9, amended. No numeric check compares the relative error with a tolerance, and
  none raises because of its size. Once the feature lists have the layers a check
  indexes, a check of the style-transfer notebook does one of three things: when the
  function under check returns a tensor and \<open>rel_error\<close> returns a number, it prints
  that number, whatever it is, and returns normally; when \<open>rel_error\<close> raises, it
  raises the same; and when the function under check returns an object that is no
  tensor, it raises \<open>AttributeError\<close> at the \<open>.cpu()\<close> applied to the result.
  \<open>tv_loss_test\<close> prints its warning after the error when a source line of \<open>tv_loss\<close>
  matches the loop pattern, and returns normally all the same. The three loss checks
  of the GAN notebook print what \<open>rel_error\<close> returns for whatever the loss function
  returned, and raise only what \<open>rel_error\<close> raises.
\<close>

theorem checks_print_error_of_tensor:
  assumes "py_index (fst (features_from_img ck (folder @ ''/tubingen.jpg'') 192 ps)) 3 = Inr cf"
    and "py_index (extract_features fw
            (zeros_like ck (snd (features_from_img ck (folder @ ''/tubingen.jpg'') 192 ps))) ps) 3 = Inr zf"
    and "py_index (fst (features_from_img ck (folder @ ''/starry_night.jpg'') 192 ps)) 5 = Inr gf"
    and "checked_style_targets ck (fst (features_from_img ck (folder @ ''/starry_night.jpg'') 192 ps))
           [1, 4, 6, 7] = Inr targets"
  shows "content_loss_test fw ck folder ps cl_out =
           (case checked_content_loss ck (6 / 100) cf zf of
              NoTensor \<Rightarrow> Inl (AttributeError ''cpu'')
            | Tensor v \<Rightarrow>
                (case rel_error ck cl_out v of
                   Inl e \<Rightarrow> Inl e
                 | Inr err \<Rightarrow> Inr [Fmt ''Maximum error is {:.3f}'' [err]]))
       \<and> gram_matrix_test fw ck folder ps gm_out =
           (case checked_gram_matrix ck gf of
              NoTensor \<Rightarrow> Inl (AttributeError ''cpu'')
            | Tensor v \<Rightarrow>
                (case rel_error ck gm_out v of
                   Inl e \<Rightarrow> Inl e
                 | Inr err \<Rightarrow> Inr [Fmt ''Maximum error is {:.3f}'' [err]]))
       \<and> style_loss_test fw ck folder ps sl_out =
           (case checked_style_loss ck (fst (features_from_img ck (folder @ ''/tubingen.jpg'') 192 ps))
                   [1, 4, 6, 7] targets [300000, 1000, 15, 3] of
              NoTensor \<Rightarrow> Inl (AttributeError ''cpu'')
            | Tensor v \<Rightarrow>
                (case rel_error ck sl_out v of
                   Inl e \<Rightarrow> Inl e
                 | Inr err \<Rightarrow> Inr [Fmt ''Error is {:.3f}'' [err]]))
       \<and> tv_loss_test fw ck folder tv_out =
           (case checked_tv_loss ck (preprocess_open fw (folder @ ''/tubingen.jpg'') 192) (2 / 100) of
              NoTensor \<Rightarrow> Inl (AttributeError ''cpu'')
            | Tensor v \<Rightarrow>
                (case rel_error ck tv_out v of
                   Inl e \<Rightarrow> Inl e
                 | Inr err \<Rightarrow>
                     Inr (Fmt ''Error is {:.4f}'' [err]
                          # (if list_ex search_for_in (tv_loss_source ck)
                             then [Text ''WARNING!!!! - Your implementation of tv_loss contains a loop! To receive full credit, your implementation should not have any loops'']
                             else []))))
       \<and> test_discriminator_loss d_loss_fn rel_err logits_real logits_fake d_loss_true =
           (case rel_err d_loss_true (d_loss_fn logits_real logits_fake) of
              Inl e \<Rightarrow> Inl e
            | Inr err \<Rightarrow> Inr [Fmt ''Maximum error in d_loss: %g'' [err]])
       \<and> test_generator_loss g_loss_fn rel_err logits_fake g_loss_true =
           (case rel_err g_loss_true (g_loss_fn logits_fake) of
              Inl e \<Rightarrow> Inl e
            | Inr err \<Rightarrow> Inr [Fmt ''Maximum error in g_loss: %g'' [err]])
       \<and> test_lsgan_loss ls_d_loss_fn ls_g_loss_fn rel_err logits_real logits_fake
             d_loss_lsgan_true g_loss_lsgan_true =
           (case rel_err d_loss_lsgan_true (ls_d_loss_fn logits_real logits_fake) of
              Inl e \<Rightarrow> Inl e
            | Inr errd \<Rightarrow>
                (case rel_err g_loss_lsgan_true (ls_g_loss_fn logits_fake) of
                   Inl e \<Rightarrow> Inl e
                 | Inr errg \<Rightarrow> Inr [Fmt ''Maximum error in d_loss: %g'' [errd],
                                      Fmt ''Maximum error in g_loss: %g'' [errg]]))"
proof -
  obtain cfs civ where c: "features_from_img ck (folder @ ''/tubingen.jpg'') 192 ps = (cfs, civ)"
    by (cases "features_from_img ck (folder @ ''/tubingen.jpg'') 192 ps")
  obtain sfs siv where s: "features_from_img ck (folder @ ''/starry_night.jpg'') 192 ps = (sfs, siv)"
    by (cases "features_from_img ck (folder @ ''/starry_night.jpg'') 192 ps")
  have 1: "content_loss_test fw ck folder ps cl_out =
           (case checked_content_loss ck (6 / 100) cf zf of
              NoTensor \<Rightarrow> Inl (AttributeError ''cpu'')
            | Tensor v \<Rightarrow>
                (case rel_error ck cl_out v of
                   Inl e \<Rightarrow> Inl e
                 | Inr err \<Rightarrow> Inr [Fmt ''Maximum error is {:.3f}'' [err]]))"
    using assms(1,2)
    by (simp add: content_loss_test_def Let_def c cpu_data_numpy_def split: returned.splits)
  have 2: "gram_matrix_test fw ck folder ps gm_out =
           (case checked_gram_matrix ck gf of
              NoTensor \<Rightarrow> Inl (AttributeError ''cpu'')
            | Tensor v \<Rightarrow>
                (case rel_error ck gm_out v of
                   Inl e \<Rightarrow> Inl e
                 | Inr err \<Rightarrow> Inr [Fmt ''Maximum error is {:.3f}'' [err]]))"
    using assms(3)
    by (simp add: gram_matrix_test_def Let_def s cpu_data_numpy_def split: returned.splits)
  have 3: "style_loss_test fw ck folder ps sl_out =
           (case checked_style_loss ck (fst (features_from_img ck (folder @ ''/tubingen.jpg'') 192 ps))
                   [1, 4, 6, 7] targets [300000, 1000, 15, 3] of
              NoTensor \<Rightarrow> Inl (AttributeError ''cpu'')
            | Tensor v \<Rightarrow>
                (case rel_error ck sl_out v of
                   Inl e \<Rightarrow> Inl e
                 | Inr err \<Rightarrow> Inr [Fmt ''Error is {:.3f}'' [err]]))"
    using assms(4)
    by (simp add: style_loss_test_def Let_def c s cpu_data_numpy_def
        del: checked_style_targets.simps split: returned.splits)
  have 4: "tv_loss_test fw ck folder tv_out =
           (case checked_tv_loss ck (preprocess_open fw (folder @ ''/tubingen.jpg'') 192) (2 / 100) of
              NoTensor \<Rightarrow> Inl (AttributeError ''cpu'')
            | Tensor v \<Rightarrow>
                (case rel_error ck tv_out v of
                   Inl e \<Rightarrow> Inl e
                 | Inr err \<Rightarrow>
                     Inr (Fmt ''Error is {:.4f}'' [err]
                          # (if list_ex search_for_in (tv_loss_source ck)
                             then [Text ''WARNING!!!! - Your implementation of tv_loss contains a loop! To receive full credit, your implementation should not have any loops'']
                             else []))))"
    by (simp add: tv_loss_test_def Let_def cpu_data_numpy_def split: returned.splits sum.splits)
  show ?thesis
    unfolding 1 2 3 4
    by (simp add: test_discriminator_loss_def test_generator_loss_def test_lsgan_loss_def Let_def)
qed

theorem checks_print_error_of_tensor_witness:
  "content_loss_test example_fw example_ck ''styles'' [] 0 = Inr [Fmt ''Maximum error is {:.3f}'' [1]]
   \<and> gram_matrix_test example_fw example_ck ''styles'' [] 0 = Inr [Fmt ''Maximum error is {:.3f}'' [1]]
   \<and> style_loss_test example_fw example_ck ''styles'' [] 0 = Inr [Fmt ''Error is {:.3f}'' [1]]
   \<and> tv_loss_test example_fw example_ck ''styles'' 0 =
       Inr [Fmt ''Error is {:.4f}'' [1],
            Text ''WARNING!!!! - Your implementation of tv_loss contains a loop! To receive full credit, your implementation should not have any loops'']"
proof -
  have f: "features_from_img example_ck (''styles'' @ ''/tubingen.jpg'') 192 []
             = (map (\<lambda>k. real k * (192 / 1000)) [0..<13], 192 / 1000)"
    "features_from_img example_ck (''styles'' @ ''/starry_night.jpg'') 192 []
             = (map (\<lambda>k. real k * (192 / 1000)) [0..<13], 192 / 1000)"
    by (simp_all add: example_ck_def example_fw_def)
  have z: "extract_features example_fw (zeros_like example_ck (192 / 1000)) [] = map (\<lambda>k. 0) [0..<13]"
    by (simp add: example_ck_def example_fw_def)
  have a1: "py_index (fst (features_from_img example_ck (''styles'' @ ''/tubingen.jpg'') 192 [])) 3
              = Inr (3 * (192 / 1000))"
    unfolding f by (simp add: py_index_def)
  have a2: "py_index (extract_features example_fw
            (zeros_like example_ck (snd (features_from_img example_ck (''styles'' @ ''/tubingen.jpg'') 192 []))) []) 3
              = Inr 0"
    unfolding f snd_conv z by (simp add: py_index_def)
  have a3: "py_index (fst (features_from_img example_ck (''styles'' @ ''/starry_night.jpg'') 192 [])) 5
              = Inr (5 * (192 / 1000))"
    unfolding f by (simp add: py_index_def)
  have a4: "checked_style_targets example_ck
              (fst (features_from_img example_ck (''styles'' @ ''/starry_night.jpg'') 192 [])) [1, 4, 6, 7]
              = Inr [checked_gram_matrix example_ck (1 * (192 / 1000)),
                     checked_gram_matrix example_ck (4 * (192 / 1000)),
                     checked_gram_matrix example_ck (6 * (192 / 1000)),
                     checked_gram_matrix example_ck (7 * (192 / 1000))]"
    unfolding f by (simp add: py_index_def)
  have loop: "list_ex search_for_in (tv_loss_source example_ck)"
    by (simp add: example_ck_def is_space_def)
  note t = checks_print_error_of_tensor [OF a1 a2 a3 a4,
      where cl_out = 0 and gm_out = 0 and sl_out = 0 and tv_out = 0]
  have e1: "(case checked_content_loss example_ck (6 / 100) (3 * (192 / 1000)) 0 of
              NoTensor \<Rightarrow> Inl (AttributeError ''cpu'')
            | Tensor v \<Rightarrow>
                (case rel_error example_ck 0 v of
                   Inl e \<Rightarrow> Inl e
                 | Inr err \<Rightarrow> Inr [Fmt ''Maximum error is {:.3f}'' [err]]))
            = Inr [Fmt ''Maximum error is {:.3f}'' [1]]"
    by (simp add: example_ck_def example_fw_def)
  have e2: "(case checked_gram_matrix example_ck (5 * (192 / 1000)) of
              NoTensor \<Rightarrow> Inl (AttributeError ''cpu'')
            | Tensor v \<Rightarrow>
                (case rel_error example_ck 0 v of
                   Inl e \<Rightarrow> Inl e
                 | Inr err \<Rightarrow> Inr [Fmt ''Maximum error is {:.3f}'' [err]]))
            = Inr [Fmt ''Maximum error is {:.3f}'' [1]]"
    by (simp add: example_ck_def example_fw_def)
  have e3: "(case checked_style_loss example_ck
                   (fst (features_from_img example_ck (''styles'' @ ''/tubingen.jpg'') 192 []))
                   [1, 4, 6, 7]
                   [checked_gram_matrix example_ck (1 * (192 / 1000)),
                    checked_gram_matrix example_ck (4 * (192 / 1000)),
                    checked_gram_matrix example_ck (6 * (192 / 1000)),
                    checked_gram_matrix example_ck (7 * (192 / 1000))]
                   [300000, 1000, 15, 3] of
              NoTensor \<Rightarrow> Inl (AttributeError ''cpu'')
            | Tensor v \<Rightarrow>
                (case rel_error example_ck 0 v of
                   Inl e \<Rightarrow> Inl e
                 | Inr err \<Rightarrow> Inr [Fmt ''Error is {:.3f}'' [err]]))
            = Inr [Fmt ''Error is {:.3f}'' [1]]"
    by (simp add: example_ck_def example_fw_def)
  have e4: "(case checked_tv_loss example_ck
                   (preprocess_open example_fw (''styles'' @ ''/tubingen.jpg'') 192) (2 / 100) of
              NoTensor \<Rightarrow> Inl (AttributeError ''cpu'')
            | Tensor v \<Rightarrow>
                (case rel_error example_ck 0 v of
                   Inl e \<Rightarrow> Inl e
                 | Inr err \<Rightarrow>
                     Inr (Fmt ''Error is {:.4f}'' [err]
                          # (if list_ex search_for_in (tv_loss_source example_ck)
                             then [Text ''WARNING!!!! - Your implementation of tv_loss contains a loop! To receive full credit, your implementation should not have any loops'']
                             else []))))
            = Inr [Fmt ''Error is {:.4f}'' [1], Text ''WARNING!!!! - Your implementation of tv_loss contains a loop! To receive full credit, your implementation should not have any loops'']"
    using loop by (simp add: example_ck_def example_fw_def)
  have "content_loss_test example_fw example_ck ''styles'' [] 0 = Inr [Fmt ''Maximum error is {:.3f}'' [1]]"
    using t [THEN conjunct1] unfolding e1 .
  moreover have "gram_matrix_test example_fw example_ck ''styles'' [] 0 = Inr [Fmt ''Maximum error is {:.3f}'' [1]]"
    using t [THEN conjunct2, THEN conjunct1] unfolding e2 .
  moreover have "style_loss_test example_fw example_ck ''styles'' [] 0 = Inr [Fmt ''Error is {:.3f}'' [1]]"
    using t [THEN conjunct2, THEN conjunct2, THEN conjunct1] unfolding e3 .
  moreover have "tv_loss_test example_fw example_ck ''styles'' 0 =
       Inr [Fmt ''Error is {:.4f}'' [1], Text ''WARNING!!!! - Your implementation of tv_loss contains a loop! To receive full credit, your implementation should not have any loops'']"
    using t [THEN conjunct2, THEN conjunct2, THEN conjunct2, THEN conjunct1] unfolding e4 .
  ultimately show ?thesis by simp
qed

text \<open>
  C9 as the spec states it, that an incorrect implementation never halts the notebook
  at a check, fails: with the four functions under check returning \<open>None\<close>, each
  check of the style-transfer notebook raises \<open>AttributeError\<close>.
\<close>

theorem check_raises_on_stub:
  "content_loss_test example_fw stub_ck ''styles'' [] 0 = Inl (AttributeError ''cpu'')
   \<and> gram_matrix_test example_fw stub_ck ''styles'' [] 0 = Inl (AttributeError ''cpu'')
   \<and> style_loss_test example_fw stub_ck ''styles'' [] 0 = Inl (AttributeError ''cpu'')
   \<and> tv_loss_test example_fw stub_ck ''styles'' 0 = Inl (AttributeError ''cpu'')"
  by (simp add: content_loss_test_def gram_matrix_test_def style_loss_test_def tv_loss_test_def
      stub_ck_def example_ck_def example_fw_def py_index_def cpu_data_numpy_def Let_def)

subsection \<open>The iterations of \<open>create_class_visualization\<close>\<close>

lemma randint_Inr:
  assumes "randint 0 h r = Inr v"
  shows "0 \<le> v \<and> v < h"
proof -
  from assms have h: "0 < h" and v: "v = int (r mod nat h)"
    by (auto simp: randint_def split: if_splits)
  from h have "r mod nat h < nat h" by simp
  then have "int (r mod nat h) < h" using h by linarith
  then show ?thesis using v by simp
qed

lemma length_roll: "length (roll k xs) = length xs"
  by (simp add: roll_def)

lemma roll_map: "roll k (map f xs) = map f (roll k xs)"
  by (simp add: roll_def rotate_map)

lemma roll_undo: "roll (- k) (roll k xs) = xs"
proof (cases "xs = []")
  case True
  then show ?thesis by (simp add: roll_def)
next
  case False
  define n where "n = int (length xs)"
  have n: "0 < n" using False by (simp add: n_def)
  define a where "a = nat ((- k) mod n)"
  define b where "b = nat (k mod n)"
  have "int (b + a) = k mod n + (- k) mod n"
    using n by (simp add: a_def b_def)
  also have "\<dots> mod n = (k + (- k)) mod n" by (simp only: mod_add_eq)
  finally have "int (b + a) mod n = 0" by simp
  then have m: "(b + a) mod length xs = 0"
    unfolding n_def by (metis of_nat_0 of_nat_eq_iff zmod_int)
  have "roll (- k) (roll k xs) = rotate b (rotate a xs)"
    by (simp add: roll_def a_def b_def n_def)
  also have "\<dots> = rotate (b + a) xs" by (simp add: rotate_rotate)
  also have "\<dots> = rotate ((b + a) mod length xs) xs" by (rule rotate_conv_mod)
  also have "\<dots> = xs" by (simp add: m)
  finally show ?thesis .
qed

lemma jitter_undo: "jitter (jitter im ox oy) (- ox) (- oy) = im"
proof -
  have "jitter (jitter im ox oy) (- ox) (- oy) = roll (- oy) (roll oy (map (roll (- ox)) (map (roll ox) im)))"
    by (simp add: jitter_def roll_map)
  also have "\<dots> = map (roll (- ox) \<circ> roll ox) im" by (simp add: roll_undo)
  also have "\<dots> = im" by (simp add: roll_undo comp_def)
  finally show ?thesis .
qed

lemma jitter_example:
  "jitter [[[1], [2], [3]], [[4], [5], [6]]] 1 0 = [[[3], [1], [2]], [[6], [4], [5]]]"
  "jitter [[[1], [2], [3]], [[4], [5], [6]]] 0 1 = [[[4], [5], [6]], [[1], [2], [3]]]"
  "jitter [[[1], [2], [3]], [[4], [5], [6]]] (- 1) 0 = [[[2], [3], [1]], [[5], [6], [4]]]"
  by (simp_all add: jitter_def roll_def rotate_def eval_nat_numeral)


lemma broadcast2_same_length:
  "length xs = length ys \<Longrightarrow> broadcast2 f xs ys = Inr (map2 f xs ys)"
  by (simp add: broadcast2_def)

lemma squeezenet_bounds_ordered:
  assumes "list_all (\<lambda>s. 0 < s) (std :: real list)" and "length mean = length std"
    and "i < length std"
  shows "map2 (\<lambda>m s. (- m) / s) mean std ! i \<le> map2 (\<lambda>m s. (1 - m) / s) mean std ! i"
proof -
  from assms(1,3) have "0 < std ! i" by (simp add: list_all_length)
  then have "(- (mean ! i)) / (std ! i) \<le> (1 - mean ! i) / (std ! i)" by (simp add: field_simps)
  then show ?thesis using assms(2,3) by simp
qed

lemma clip_pixel_explicit:
  "clip_pixel lo hi px =
     map (\<lambda>j. max (min (px ! j) (hi ! (if length hi = 1 then 0 else j)))
                  (lo ! (if length lo = 1 then 0 else j))) [0..<length px]"
  by (simp add: clip_pixel_def bound_at_def)

lemma clip_pixel_in_range:
  assumes "fits lo px" and "fits hi px" and "length lo = length hi"
    and "\<forall>i < length lo. lo ! i \<le> hi ! i"
  shows "list_all (\<lambda>j. lo ! (if length lo = 1 then 0 else j) \<le> clip_pixel lo hi px ! j
                     \<and> clip_pixel lo hi px ! j \<le> hi ! (if length hi = 1 then 0 else j))
           [0..<length (clip_pixel lo hi px)]"
proof -
  have "lo ! (if length lo = 1 then 0 else j) \<le> hi ! (if length hi = 1 then 0 else j)"
    if "j < length px" for j
  proof -
    have "(if length lo = 1 then 0 else j) < length lo"
      using assms(1) that by (auto simp: fits_def)
    with assms(3,4) show ?thesis by auto
  qed
  then show ?thesis
    by (auto simp: list_all_iff clip_pixel_explicit)
qed

lemma clip_by_value_Inr:
  assumes "clip_by_value im lo hi = Inr clipped"
  shows "clipped = map (map (clip_pixel lo hi)) im"
    and "list_all (list_all (\<lambda>px. fits lo px \<and> fits hi px)) im"
  using assms by (auto simp: clip_by_value_def split: if_splits)

lemma clip_by_value_in_range:
  assumes c: "clip_by_value im lo hi = Inr clipped"
    and "length lo = length hi" and "\<forall>i < length lo. lo ! i \<le> hi ! i"
  shows "list_all (list_all (\<lambda>px. list_all (\<lambda>j. lo ! (if length lo = 1 then 0 else j) \<le> px ! j
                     \<and> px ! j \<le> hi ! (if length hi = 1 then 0 else j)) [0..<length px])) clipped"
proof -
  note r = clip_by_value_Inr [OF c]
  have "list_all (\<lambda>j. lo ! (if length lo = 1 then 0 else j) \<le> clip_pixel lo hi px ! j
                     \<and> clip_pixel lo hi px ! j \<le> hi ! (if length hi = 1 then 0 else j))
           [0..<length (clip_pixel lo hi px)]"
    if "row \<in> set im" and "px \<in> set row" for row px
  proof -
    from r(2) that have "fits lo px" "fits hi px" by (auto simp: list_all_iff)
    then show ?thesis using assms(2,3) by (rule clip_pixel_in_range)
  qed
  then show ?thesis
    unfolding r(1) by (simp add: list_all_iff)
qed

lemma cv_iteration_Inr:
  assumes "cv_iteration fw mean std class_names rnd target_y kw t st = Inr st'"
  shows "\<exists>ox oy lo hi clipped.
      randint 0 (max_jitter kw) (rnd (2 * t)) = Inr ox
    \<and> randint 0 (max_jitter kw) (rnd (2 * t + 1)) = Inr oy
    \<and> broadcast2 (\<lambda>m s. (- m) / s) mean std = Inr lo
    \<and> broadcast2 (\<lambda>m s. (1 - m) / s) mean std = Inr hi
    \<and> clip_by_value
         (jitter
            (class_visualization_update_step fw (jitter (X st) ox oy) (model st) target_y
               (l2_reg kw) (learning_rate kw))
            (- ox) (- oy)) lo hi = Inr clipped
    \<and> blur_every kw \<noteq> 0
    \<and> X st' = (if int t mod blur_every kw = 0 then blur_image fw clipped (1 / 2) else clipped)
    \<and> model st' = model st"
  using assms
  by (auto simp: cv_iteration_def Let_def split: sum.splits if_splits option.splits)

lemma cv_run_Suc_Inr:
  "cv_run fw mean std class_names rnd target_y kw (Suc n) st0 = Inr st' \<Longrightarrow>
   \<exists>st. cv_run fw mean std class_names rnd target_y kw n st0 = Inr st \<and>
        cv_iteration fw mean std class_names rnd target_y kw n st = Inr st'"
  by (auto split: sum.splits)

lemma cv_run_prefix:
  "cv_run fw mean std class_names rnd target_y kw k st0 = Inr st' \<Longrightarrow> n \<le> k \<Longrightarrow>
   \<exists>st. cv_run fw mean std class_names rnd target_y kw n st0 = Inr st"
proof (induction k arbitrary: st')
  case 0
  then show ?case by simp
next
  case (Suc k)
  show ?case
  proof (cases "n = Suc k")
    case True
    then show ?thesis using Suc.prems by blast
  next
    case False
    then have "n \<le> k" using Suc.prems by simp
    moreover obtain s where "cv_run fw mean std class_names rnd target_y kw k st0 = Inr s"
      using cv_run_Suc_Inr [OF Suc.prems(1)] by blast
    ultimately show ?thesis using Suc.IH by blast
  qed
qed

lemma cv_run_model:
  "cv_run fw mean std class_names rnd target_y kw n st0 = Inr st \<Longrightarrow> model st = model st0"
proof (induction n arbitrary: st)
  case 0
  then show ?case by simp
next
  case (Suc n)
  from cv_run_Suc_Inr [OF Suc.prems] obtain s where
    s: "cv_run fw mean std class_names rnd target_y kw n st0 = Inr s"
    and it: "cv_iteration fw mean std class_names rnd target_y kw n s = Inr st" by blast
  from cv_iteration_Inr [OF it] Suc.IH [OF s] show ?case by auto
qed


lemma example_class_visualization:
  "\<exists>final. create_class_visualization example_tfw [485 / 1000, 456 / 1000, 406 / 1000]
      [229 / 1000, 224 / 1000, 225 / 1000] [76 \<mapsto> ''tarantula''] (\<lambda>k. 7 * k + 3)
      example_image 76 example_model example_kwargs = Inr final"
  by (simp add: create_class_visualization_def example_kwargs_def default_kwargs_def
      numeral_2_eq_2 cv_iteration_def randint_def clip_by_value_def clip_pixel_def fits_def
      bound_at_def broadcast2_def jitter_def roll_def rotate_def example_image_def
      example_tfw_def Let_def)

text \<open>
  C6. Whenever \<open>create_class_visualization\<close> returns, with every entry of
  \<open>SQUEEZENET_STD\<close> positive and as many entries as \<open>SQUEEZENET_MEAN\<close>, each iteration
  \<open>t\<close> below \<open>num_iterations\<close> does the following to the image \<open>X\<close> it starts from, in
  this order: it draws offsets \<open>ox\<close> and \<open>oy\<close> in \<open>[0, max_jitter)\<close> and jitters the image
  by them; makes one \<open>class_visualization_update_step\<close> with \<open>l2_reg\<close> and
  \<open>learning_rate\<close>; jitters by the negated offsets \<open>-ox\<close> and \<open>-oy\<close> of the same draw,
  which undoes the first jitter on every image; replaces every channel value \<open>v\<close> of
  every pixel by \<open>max (min v hi) lo\<close> for the entries \<open>lo\<close> of
  \<open>-SQUEEZENET_MEAN / SQUEEZENET_STD\<close> and \<open>hi\<close> of
  \<open>(1 - SQUEEZENET_MEAN) / SQUEEZENET_STD\<close> of its channel, so that the value lies
  between the two and the shape of the image is kept; and blurs the result with
  \<open>sigma = 0.5\<close> exactly when \<open>t mod blur_every = 0\<close>.
\<close>

theorem class_visualization_iteration:
  assumes run: "create_class_visualization fw mean std class_names rnd X0 target_y m kw = Inr final"
    and t: "int t < num_iterations kw"
    and pos: "list_all (\<lambda>s. 0 < s) std"
    and len: "length mean = length std"
  shows "\<exists>st st' ox oy lo hi X3 clipped.
      cv_run fw mean std class_names rnd target_y kw t \<lparr>X = X0, model = m, shown = []\<rparr> = Inr st
    \<and> cv_run fw mean std class_names rnd target_y kw (Suc t) \<lparr>X = X0, model = m, shown = []\<rparr> = Inr st'
    \<and> randint 0 (max_jitter kw) (rnd (2 * t)) = Inr ox \<and> 0 \<le> ox \<and> ox < max_jitter kw
    \<and> randint 0 (max_jitter kw) (rnd (2 * t + 1)) = Inr oy \<and> 0 \<le> oy \<and> oy < max_jitter kw
    \<and> X3 = jitter
              (class_visualization_update_step fw (jitter (X st) ox oy) m target_y
                 (l2_reg kw) (learning_rate kw))
              (- ox) (- oy)
    \<and> (\<forall>Y. jitter (jitter Y ox oy) (- ox) (- oy) = Y)
    \<and> lo = map2 (\<lambda>m s. (- m) / s) mean std
    \<and> hi = map2 (\<lambda>m s. (1 - m) / s) mean std
    \<and> clip_by_value X3 lo hi = Inr clipped
    \<and> clipped =
        map (map (\<lambda>px. map (\<lambda>j. max (min (px ! j) (hi ! (if length hi = 1 then 0 else j)))
                                  (lo ! (if length lo = 1 then 0 else j))) [0..<length px])) X3
    \<and> list_all (list_all (\<lambda>px. list_all (\<lambda>j. lo ! (if length lo = 1 then 0 else j) \<le> px ! j
                     \<and> px ! j \<le> hi ! (if length hi = 1 then 0 else j)) [0..<length px])) clipped
    \<and> blur_every kw \<noteq> 0
    \<and> X st' = (if int t mod blur_every kw = 0 then blur_image fw clipped (1 / 2) else clipped)"
proof -
  let ?st0 = "\<lparr>X = X0, model = m, shown = []\<rparr>"
  define lo where "lo = map2 (\<lambda>m s. (- m) / s) mean std"
  define hi where "hi = map2 (\<lambda>m s. (1 - m) / s) mean std"
  from run have r: "cv_run fw mean std class_names rnd target_y kw (nat (num_iterations kw)) ?st0 = Inr final"
    by (simp add: create_class_visualization_def)
  from t have "Suc t \<le> nat (num_iterations kw)" by linarith
  from cv_run_prefix [OF r this] obtain st' where
    st': "cv_run fw mean std class_names rnd target_y kw (Suc t) ?st0 = Inr st'" by blast
  from cv_run_Suc_Inr [OF st'] obtain st where
    st: "cv_run fw mean std class_names rnd target_y kw t ?st0 = Inr st"
    and it: "cv_iteration fw mean std class_names rnd target_y kw t st = Inr st'" by blast
  have md: "model st = m" using cv_run_model [OF st] by simp
  have blo: "broadcast2 (\<lambda>m s. (- m) / s) mean std = Inr lo"
    and bhi: "broadcast2 (\<lambda>m s. (1 - m) / s) mean std = Inr hi"
    unfolding lo_def hi_def by (rule broadcast2_same_length [OF len])+
  define X3 where "X3 ox oy = jitter
              (class_visualization_update_step fw (jitter (X st) ox oy) m target_y
                 (l2_reg kw) (learning_rate kw))
              (- ox) (- oy)" for ox oy
  from cv_iteration_Inr [OF it] obtain ox oy clipped where
    ox: "randint 0 (max_jitter kw) (rnd (2 * t)) = Inr ox"
    and oy: "randint 0 (max_jitter kw) (rnd (2 * t + 1)) = Inr oy"
    and cl: "clip_by_value (X3 ox oy) lo hi = Inr clipped"
    and be: "blur_every kw \<noteq> 0"
    and x': "X st' = (if int t mod blur_every kw = 0 then blur_image fw clipped (1 / 2) else clipped)"
    unfolding md blo bhi X3_def by auto
  note rg = randint_Inr [OF ox] randint_Inr [OF oy]
  have ll: "length lo = length hi" unfolding lo_def hi_def by simp
  have ord: "\<forall>i < length lo. lo ! i \<le> hi ! i"
    unfolding lo_def hi_def using squeezenet_bounds_ordered [OF pos len] len by simp
  note inrange = clip_by_value_in_range [OF cl ll ord]
  have expl: "clipped =
        map (map (\<lambda>px. map (\<lambda>j. max (min (px ! j) (hi ! (if length hi = 1 then 0 else j)))
                                  (lo ! (if length lo = 1 then 0 else j))) [0..<length px])) (X3 ox oy)"
    using clip_by_value_Inr(1) [OF cl] by (simp add: clip_pixel_explicit)
  have undo: "\<forall>Y. jitter (jitter Y ox oy) (- ox) (- oy) = Y" by (simp add: jitter_undo)
  show ?thesis
    apply (rule exI [of _ st], rule exI [of _ st'], rule exI [of _ ox], rule exI [of _ oy],
        rule exI [of _ lo], rule exI [of _ hi], rule exI [of _ "X3 ox oy"], rule exI [of _ clipped])
    apply (intro conjI)
    using st st' ox oy cl be x' rg inrange expl undo
                  apply (simp_all add: X3_def)
    apply (simp_all add: lo_def hi_def)
    done
qed


theorem class_visualization_iteration_witness:
  "(\<exists>final. create_class_visualization example_tfw [485 / 1000, 456 / 1000, 406 / 1000]
      [229 / 1000, 224 / 1000, 225 / 1000] [76 \<mapsto> ''tarantula''] (\<lambda>k. 7 * k + 3)
      example_image 76 example_model example_kwargs = Inr final)
   \<and> int 1 < num_iterations example_kwargs
   \<and> list_all (\<lambda>s. 0 < s) [229 / 1000, 224 / 1000, 225 / 1000 :: real]
   \<and> (\<exists>st st' X3 clipped.
        cv_run example_tfw [485 / 1000, 456 / 1000, 406 / 1000] [229 / 1000, 224 / 1000, 225 / 1000]
          [76 \<mapsto> ''tarantula''] (\<lambda>k. 7 * k + 3) 76 example_kwargs 1
          \<lparr>X = example_image, model = example_model, shown = []\<rparr> = Inr st
      \<and> cv_run example_tfw [485 / 1000, 456 / 1000, 406 / 1000] [229 / 1000, 224 / 1000, 225 / 1000]
          [76 \<mapsto> ''tarantula''] (\<lambda>k. 7 * k + 3) 76 example_kwargs 2
          \<lparr>X = example_image, model = example_model, shown = []\<rparr> = Inr st'
      \<and> randint 0 16 17 = Inr 1 \<and> randint 0 16 24 = Inr 8
      \<and> X3 = jitter
                (class_visualization_update_step example_tfw (jitter (X st) 1 8) example_model 76
                   (1 / 1000) 25)
                (- 1) (- 8)
      \<and> clip_by_value X3 [- (485 / 229), - (456 / 224), - (406 / 225)]
           [515 / 229, 544 / 224, 594 / 225] = Inr clipped
      \<and> clipped =
          map (map (\<lambda>px. map (\<lambda>j. max (min (px ! j) ([515 / 229, 544 / 224, 594 / 225] ! j))
                                    ([- (485 / 229), - (456 / 224), - (406 / 225)] ! j))
                            [0..<length px])) X3
      \<and> X st' = clipped)"
proof -
  obtain final where fin: "create_class_visualization example_tfw [485 / 1000, 456 / 1000, 406 / 1000]
      [229 / 1000, 224 / 1000, 225 / 1000] [76 \<mapsto> ''tarantula''] (\<lambda>k. 7 * k + 3)
      example_image 76 example_model example_kwargs = Inr final"
    using example_class_visualization by blast
  have t: "int 1 < num_iterations example_kwargs"
    by (simp add: example_kwargs_def)
  have pos: "list_all (\<lambda>s. 0 < s) [229 / 1000, 224 / 1000, 225 / 1000 :: real]" by simp
  have len: "length [485 / 1000, 456 / 1000, 406 / 1000 :: real]
      = length [229 / 1000, 224 / 1000, 225 / 1000 :: real]" by simp
  have kw: "max_jitter example_kwargs = 16" "blur_every example_kwargs = 10"
    "l2_reg example_kwargs = 1 / 1000" "learning_rate example_kwargs = 25"
    by (simp_all add: example_kwargs_def default_kwargs_def)
  have r: "randint 0 16 17 = Inr 1" "randint 0 16 24 = Inr 8" by (simp_all add: randint_def)
  have bounds:
    "map2 (\<lambda>m s. (- m) / s) [485 / 1000, 456 / 1000, 406 / 1000] [229 / 1000, 224 / 1000, 225 / 1000 :: real]
       = [- (485 / 229), - (456 / 224), - (406 / 225)]"
    "map2 (\<lambda>m s. (1 - m) / s) [485 / 1000, 456 / 1000, 406 / 1000] [229 / 1000, 224 / 1000, 225 / 1000 :: real]
       = [515 / 229, 544 / 224, 594 / 225]"
    by simp_all
  from class_visualization_iteration [OF fin t pos len] obtain st st' ox oy lo hi X3 clipped where
    a: "cv_run example_tfw [485 / 1000, 456 / 1000, 406 / 1000] [229 / 1000, 224 / 1000, 225 / 1000]
          [76 \<mapsto> ''tarantula''] (\<lambda>k. 7 * k + 3) 76 example_kwargs 1
          \<lparr>X = example_image, model = example_model, shown = []\<rparr> = Inr st"
    and b: "cv_run example_tfw [485 / 1000, 456 / 1000, 406 / 1000] [229 / 1000, 224 / 1000, 225 / 1000]
          [76 \<mapsto> ''tarantula''] (\<lambda>k. 7 * k + 3) 76 example_kwargs (Suc 1)
          \<lparr>X = example_image, model = example_model, shown = []\<rparr> = Inr st'"
    and ox: "randint 0 16 (7 * (2 * 1) + 3) = Inr ox" and oy: "randint 0 16 (7 * (2 * 1 + 1) + 3) = Inr oy"
    and x3: "X3 = jitter
                (class_visualization_update_step example_tfw (jitter (X st) ox oy) example_model 76
                   (1 / 1000) 25)
                (- ox) (- oy)"
    and lo: "lo = [- (485 / 229), - (456 / 224), - (406 / 225)]"
    and hi: "hi = [515 / 229, 544 / 224, 594 / 225]"
    and c: "clip_by_value X3 lo hi = Inr clipped"
    and e: "clipped =
        map (map (\<lambda>px. map (\<lambda>j. max (min (px ! j) (hi ! (if length hi = 1 then 0 else j)))
                                  (lo ! (if length lo = 1 then 0 else j))) [0..<length px])) X3"
    and x': "X st' = (if int 1 mod 10 = 0 then blur_image example_tfw clipped (1 / 2) else clipped)"
    unfolding kw bounds by blast
  from ox oy have o: "ox = 1" "oy = 8" by (simp_all add: randint_def)
  have two: "Suc 1 = 2" by simp
  have e': "clipped =
          map (map (\<lambda>px. map (\<lambda>j. max (min (px ! j) ([515 / 229, 544 / 224, 594 / 225] ! j))
                                    ([- (485 / 229), - (456 / 224), - (406 / 225)] ! j))
                            [0..<length px])) X3"
    using e unfolding lo hi by simp
  have x'': "X st' = clipped" using x' by simp
  show ?thesis
    apply (intro conjI)
       apply (rule exI [of _ final], rule fin)
      apply (rule t)
     apply (rule pos)
    apply (rule exI [of _ st], rule exI [of _ st'], rule exI [of _ X3], rule exI [of _ clipped])
    apply (intro conjI)
    using a b c x'' r x3 e' unfolding o two lo hi by simp_all
qed

subsection \<open>The extractor is never trained\<close>

lemma cnn_setup_cell_frozen:
  "list_all (\<lambda>c. \<not> requires_grad c) (cnn_setup_cell pretrained)"
  "map data (cnn_setup_cell pretrained) = pretrained"
  by (simp_all add: cnn_setup_cell_def freeze_def load_squeezenet_def list_all_iff comp_def)

lemma netvis_setup_cell_Inr:
  "netvis_setup_cell path_exists net load_weights sp = Inr m \<Longrightarrow> \<not> trainable m"
  by (auto simp: netvis_setup_cell_def split: option.splits if_splits sum.splits)

text \<open>
  C4. The parameters of the pretrained extractor never change. In the style-transfer
  notebook the setup cell clears \<open>requires_grad\<close> on every parameter of \<open>cnn\<close> and keeps
  the pretrained values; \<open>style_transfer\<close> builds its optimizer over the image tensor
  alone, the optimizer in force before and after every one of the 200 iterations is
  over the image alone, and after every iteration, and at the end, the parameters of
  \<open>cnn\<close> are exactly those the setup cell left. In the network-visualization notebook
  the setup cell leaves the model with \<open>trainable = False\<close>, and the model is the same
  before and after every iteration of \<open>create_class_visualization\<close>, whose update
  step hands back a new image only.
\<close>

theorem extractor_parameters_unchanged:
  assumes st: "style_transfer fw (cnn_setup_cell pretrained) a = Inr final"
    and nv: "netvis_setup_cell path_exists net load_weights save_path = Inr m"
    and cv: "create_class_visualization tfw mean std class_names rnd X0 target_y m kw = Inr cfinal"
  shows "list_all (\<lambda>c. \<not> requires_grad c) (cnn_setup_cell pretrained)
       \<and> map data (cnn_setup_cell pretrained) = pretrained
       \<and> (\<exists>content_target style_targets st0.
             st_prepare fw (cnn_setup_cell pretrained) a = Inr (content_target, style_targets, st0)
           \<and> optimizer st0 = Adam fw [Img] 3
           \<and> (\<forall>t \<le> 200. \<exists>s. st_run fw a content_target style_targets t st0 = Inr s
                  \<and> opt_params (optimizer s) = [Img]
                  \<and> cnn s = cnn_setup_cell pretrained))
       \<and> cnn final = cnn_setup_cell pretrained
       \<and> map data (cnn final) = pretrained
       \<and> \<not> trainable m
       \<and> (\<forall>t \<le> nat (num_iterations kw).
             \<exists>s. cv_run tfw mean std class_names rnd target_y kw t \<lparr>X = X0, model = m, shown = []\<rparr> = Inr s
                \<and> model s = m)
       \<and> model cfinal = m"
proof -
  let ?cnn0 = "cnn_setup_cell pretrained"
  note fr = cnn_setup_cell_frozen [of pretrained]
  from style_transfer_Inr [OF st] obtain ct stg st0 s200 where
    prep: "st_prepare fw ?cnn0 a = Inr (ct, stg, st0)"
    and r200: "st_run fw a ct stg 200 st0 = Inr s200"
    and fin: "final = s200\<lparr>out := out s200 @ [Fmt ''Iteration {}'' [199]]\<rparr>" by blast
  note p = st_prepare_Inr(3) [OF prep]
  have o0: "optimizer st0 = Adam fw [Img] 3" and c0: "cnn st0 = ?cnn0" by (simp_all add: p)
  have i0: "opt_params (optimizer st0) = [Img]" "requires_grad (img st0)" "lr (optimizer st0) = 3"
    by (simp_all add: p Adam_def)
  have frozen0: "\<forall>c \<in> set (cnn st0). \<not> requires_grad c"
    using fr(1) by (simp add: c0 list_all_iff)
  have steps: "\<exists>s. st_run fw a ct stg t st0 = Inr s \<and> opt_params (optimizer s) = [Img] \<and> cnn s = ?cnn0"
    if "t \<le> 200" for t
  proof -
    from st_run_prefix [OF r200 that] obtain s where s: "st_run fw a ct stg t st0 = Inr s" by blast
    from st_run_invariant [OF s i0] frozen0 have "opt_params (optimizer s) = [Img]" "cnn s = ?cnn0"
      by (simp_all add: c0)
    with s show ?thesis by blast
  qed
  from st_run_invariant [OF r200 i0] frozen0 have cf: "cnn final = ?cnn0"
    by (simp add: fin c0)
  let ?c0 = "\<lparr>X = X0, model = m, shown = []\<rparr>"
  from cv have rc: "cv_run tfw mean std class_names rnd target_y kw (nat (num_iterations kw)) ?c0 = Inr cfinal"
    by (simp add: create_class_visualization_def)
  have csteps: "\<exists>s. cv_run tfw mean std class_names rnd target_y kw t ?c0 = Inr s \<and> model s = m"
    if "t \<le> nat (num_iterations kw)" for t
  proof -
    from cv_run_prefix [OF rc that] obtain s where
      s: "cv_run tfw mean std class_names rnd target_y kw t ?c0 = Inr s" by blast
    from cv_run_model [OF s] s show ?thesis by auto
  qed
  have mf: "model cfinal = m" using cv_run_model [OF rc] by simp
  have part1: "\<exists>content_target style_targets st0.
             st_prepare fw ?cnn0 a = Inr (content_target, style_targets, st0)
           \<and> optimizer st0 = Adam fw [Img] 3
           \<and> (\<forall>t \<le> 200. \<exists>s. st_run fw a content_target style_targets t st0 = Inr s
                  \<and> opt_params (optimizer s) = [Img]
                  \<and> cnn s = ?cnn0)"
    using prep o0 steps by blast
  show ?thesis
    using fr part1 cf netvis_setup_cell_Inr [OF nv] csteps mf by simp
qed

theorem extractor_parameters_unchanged_witness:
  "(\<exists>final. style_transfer example_fw (cnn_setup_cell [1, 2]) example_args = Inr final
       \<and> cnn final = cnn_setup_cell [1, 2] \<and> map data (cnn final) = [1, 2])
   \<and> netvis_setup_cell (\<lambda>p. p = ''cv/datasets/squeezenet.ckpt.index'') \<lparr>weights = 0, trainable = True\<rparr>
         (\<lambda>m p. Inr m) (Some ''cv/datasets/squeezenet.ckpt'') = Inr example_model
   \<and> (\<exists>cfinal. create_class_visualization example_tfw [485 / 1000, 456 / 1000, 406 / 1000]
          [229 / 1000, 224 / 1000, 225 / 1000] [76 \<mapsto> ''tarantula''] (\<lambda>k. 7 * k + 3)
          example_image 76 example_model example_kwargs = Inr cfinal
        \<and> model cfinal = example_model)"
proof -
  obtain final where fin: "style_transfer example_fw (cnn_setup_cell [1, 2]) example_args = Inr final"
    using example_style_transfer by blast
  have nv: "netvis_setup_cell (\<lambda>p. p = ''cv/datasets/squeezenet.ckpt.index'') \<lparr>weights = 0, trainable = True\<rparr>
         (\<lambda>m p. Inr m) (Some ''cv/datasets/squeezenet.ckpt'') = Inr example_model"
    by (simp add: netvis_setup_cell_def example_model_def)
  obtain cfinal where cfin: "create_class_visualization example_tfw [485 / 1000, 456 / 1000, 406 / 1000]
      [229 / 1000, 224 / 1000, 225 / 1000] [76 \<mapsto> ''tarantula''] (\<lambda>k. 7 * k + 3)
      example_image 76 example_model example_kwargs = Inr cfinal"
    using example_class_visualization by blast
  note t = extractor_parameters_unchanged [OF fin nv cfin]
  have c: "cnn final = cnn_setup_cell [1, 2]" "map data (cnn final) = [1, 2]" "model cfinal = example_model"
    using t by blast+
  have 1: "\<exists>final. style_transfer example_fw (cnn_setup_cell [1, 2]) example_args = Inr final
       \<and> cnn final = cnn_setup_cell [1, 2] \<and> map data (cnn final) = [1, 2]"
    using fin c(1,2) by (intro exI [of _ final] conjI)
  have 3: "\<exists>cfinal. create_class_visualization example_tfw [485 / 1000, 456 / 1000, 406 / 1000]
          [229 / 1000, 224 / 1000, 225 / 1000] [76 \<mapsto> ''tarantula''] (\<lambda>k. 7 * k + 3)
          example_image 76 example_model example_kwargs = Inr cfinal
        \<and> model cfinal = example_model"
    using cfin c(3) by (intro exI [of _ cfinal] conjI)
  from 1 nv 3 show ?thesis by (intro conjI)
qed

end
